theory Spec2Isabelle
  imports Complex_Main "HOL-Library.Stream"
begin

section \<open>Random engine and distributions\<close>

text \<open>
  The creators own a \<^verbatim>\<open>std::default_random_engine\<close> and draw from it through
  \<^verbatim>\<open>std::uniform_int_distribution\<close>, \<^verbatim>\<open>std::bernoulli_distribution\<close> and
  \<^verbatim>\<open>std::discrete_distribution\<close>, the first two always with the parameters passed at
  the call, the last with the weights it was constructed from.
  The engine state is the stream of raw outputs it is still going to produce; a draw
  consumes the head. Each distribution maps a raw output onto its support, so that
  every outcome the library can deliver is delivered by some stream, and nothing else
  is. Probabilities are not modelled. A uniform draw over an empty range
  (\<open>hi < lo\<close>), which the library leaves undefined, yields \<open>lo\<close>.
\<close>

type_synonym rnd_engine = "nat stream"

definition uniform_int :: "int \<Rightarrow> int \<Rightarrow> rnd_engine \<Rightarrow> int \<times> rnd_engine" where
  "uniform_int lo hi g =
     ((if hi < lo then lo else lo + int (shd g) mod (hi - lo + 1)), stl g)"

definition bernoulli :: "real \<Rightarrow> rnd_engine \<Rightarrow> bool \<times> rnd_engine" where
  "bernoulli p g = ((0 < p \<and> (1 \<le> p \<or> even (shd g))), stl g)"

text \<open>
  One engine of the library, the linear congruential \<^verbatim>\<open>minstd_rand0\<close>: the seed is
  taken modulo \<open>2^31 - 1\<close>, with 1 for 0, and every output is 16807 times the one
  before, modulo \<open>2^31 - 1\<close>.
\<close>

definition minstd_rand0 :: "nat \<Rightarrow> rnd_engine" where
  "minstd_rand0 s =
     (let x0 = (if s mod 2147483647 = 0 then 1 else s mod 2147483647)
      in siterate (\<lambda>x. 16807 * x mod 2147483647) (16807 * x0 mod 2147483647))"

section \<open>CSG nodes\<close>

datatype CSGNodeOperationType =
  Unknown | Intersection_op | Union_op | Difference_op | Complement_op | Noop | Invalid

datatype 'f CSGNode =
  Geometry 'f
| Operation CSGNodeOperationType string "'f CSGNode list"

text \<open>
  Modelled from the spec: \<^verbatim>\<open>numNodes\<close>, \<^verbatim>\<open>depth\<close>, \<^verbatim>\<open>nodePtrAt\<close>,
  \<^verbatim>\<open>numAllowedChilds\<close>, \<^verbatim>\<open>createOperation\<close> and \<^verbatim>\<open>clamp\<close> belong to the CSG node
  module, which is not among the sources. A leaf has depth 0 (the creator returns a
  leaf for \<open>max_depth = 0\<close>), an operator is one deeper than its deepest child, every
  node counts once, and node indices run over \<open>[0, num_nodes - 1]\<close> in pre-order.
  Allowed child counts: Union and Intersection at least 2, Difference exactly 2,
  Complement exactly 1.
\<close>

fun numNodes :: "'f CSGNode \<Rightarrow> nat" where
  "numNodes (Geometry f) = 1"
| "numNodes (Operation ty nm cs) = 1 + sum_list (map numNodes cs)"

fun depth :: "'f CSGNode \<Rightarrow> nat" where
  "depth (Geometry f) = 0"
| "depth (Operation ty nm cs) = fold max (map (\<lambda>c. 1 + depth c) cs) 0"

fun nodeAt :: "'f CSGNode \<Rightarrow> nat \<Rightarrow> 'f CSGNode option"
  and nodeAt_childs :: "'f CSGNode list \<Rightarrow> nat \<Rightarrow> 'f CSGNode option" where
  "nodeAt t 0 = Some t"
| "nodeAt (Geometry f) (Suc i) = None"
| "nodeAt (Operation ty nm cs) (Suc i) = nodeAt_childs cs i"
| "nodeAt_childs [] i = None"
| "nodeAt_childs (c # cs) i =
     (if i < numNodes c then nodeAt c i else nodeAt_childs cs (i - numNodes c))"

text \<open>\<open>assignAt t i s\<close> is \<^verbatim>\<open>*nodePtrAt(t, i) = s\<close>; \<open>None\<close> is the null pointer.\<close>

fun assignAt :: "'f CSGNode \<Rightarrow> nat \<Rightarrow> 'f CSGNode \<Rightarrow> 'f CSGNode option"
  and assignAt_childs :: "'f CSGNode list \<Rightarrow> nat \<Rightarrow> 'f CSGNode \<Rightarrow> 'f CSGNode list option" where
  "assignAt t 0 s = Some s"
| "assignAt (Geometry f) (Suc i) s = None"
| "assignAt (Operation ty nm cs) (Suc i) s =
     (case assignAt_childs cs i s of None \<Rightarrow> None | Some cs' \<Rightarrow> Some (Operation ty nm cs'))"
| "assignAt_childs [] i s = None"
| "assignAt_childs (c # cs) i s =
     (if i < numNodes c
      then (case assignAt c i s of None \<Rightarrow> None | Some c' \<Rightarrow> Some (c' # cs))
      else (case assignAt_childs cs (i - numNodes c) s of
              None \<Rightarrow> None | Some cs' \<Rightarrow> Some (c # cs')))"

definition nodePtrAt :: "'f CSGNode \<Rightarrow> int \<Rightarrow> 'f CSGNode option" where
  "nodePtrAt t idx = (if idx < 0 then None else nodeAt t (nat idx))"

definition assignPtrAt :: "'f CSGNode \<Rightarrow> int \<Rightarrow> 'f CSGNode \<Rightarrow> 'f CSGNode option" where
  "assignPtrAt t idx s = (if idx < 0 then None else assignAt t (nat idx) s)"

definition INT_MAX :: int where
  "INT_MAX = 2147483647"

fun numAllowedChilds :: "CSGNodeOperationType \<Rightarrow> int \<times> int" where
  "numAllowedChilds Union_op = (2, INT_MAX)"
| "numAllowedChilds Intersection_op = (2, INT_MAX)"
| "numAllowedChilds Difference_op = (2, 2)"
| "numAllowedChilds Complement_op = (1, 1)"
| "numAllowedChilds _ = (0, 0)"

definition clamp :: "int \<Rightarrow> int \<Rightarrow> int \<Rightarrow> int" where
  "clamp x lo hi = (if x < lo then lo else if hi < x then hi else x)"

definition createOperation :: "CSGNodeOperationType \<Rightarrow> 'f CSGNode" where
  "createOperation ty = Operation ty [] []"

definition operationOfInt :: "int \<Rightarrow> CSGNodeOperationType" where
  "operationOfInt i =
     (if i = 1 then Intersection_op else if i = 2 then Union_op
      else if i = 3 then Difference_op else if i = 0 then Unknown else Invalid)"

fun addChilds :: "'f CSGNode \<Rightarrow> 'f CSGNode list \<Rightarrow> 'f CSGNode" where
  "addChilds (Operation ty nm cs) ds = Operation ty nm (cs @ ds)"
| "addChilds (Geometry f) ds = Geometry f"

section \<open>CSG node creator\<close>

record 'f Graph =
  m_vertices :: "'f list"
  m_edges :: "('f \<times> 'f) list"

definition emptyGraph :: "'f Graph" where
  "emptyGraph = \<lparr>m_vertices = [], m_edges = []\<rparr>"

record 'f CSGNodeCreator =
  node_functions :: "'f list"
  createNewRandomProb :: real
  subtreeProb :: real
  maxTreeDepth :: int
  rndEngine :: rnd_engine
  node_connectionGraph :: "'f Graph"


definition numChildsFor :: "CSGNodeOperationType \<Rightarrow> nat" where
  "numChildsFor ty = nat (clamp (snd (numAllowedChilds ty)) (fst (numAllowedChilds ty)) 2)"

text \<open>
  The loop of \<^verbatim>\<open>create(node, maxDepth, curDepth)\<close>: \<open>k\<close> children are still to be
  added. The Bernoulli draw comes first in the condition and is made even when
  \<open>curDepth < maxDepth\<close> fails.
\<close>

function create_childs ::
  "'f list \<Rightarrow> real \<Rightarrow> int \<Rightarrow> int \<Rightarrow> nat \<Rightarrow> rnd_engine \<Rightarrow> 'f CSGNode list \<times> rnd_engine" where
  "create_childs fs sp maxDepth curDepth 0 g = ([], g)"
| "create_childs fs sp maxDepth curDepth (Suc k) g =
     (let (b, g1) = bernoulli sp g in
      if b \<and> curDepth < maxDepth then
        (let (op, g2) = uniform_int 1 3 g1;
             ty = operationOfInt op;
             (cs, g3) = create_childs fs sp maxDepth (curDepth + 1) (numChildsFor ty) g2;
             (rest, g4) = create_childs fs sp maxDepth curDepth k g3
         in (addChilds (createOperation ty) cs # rest, g4))
      else
        (let (funcIdx, g2) = uniform_int 0 (int (length fs) - 1) g1;
             (rest, g3) = create_childs fs sp maxDepth curDepth k g2
         in (Geometry (fs ! nat funcIdx) # rest, g3)))"
  by pat_completeness auto
termination
  by (relation "measures [\<lambda>(fs, sp, m, c, k, g). nat (m - c), \<lambda>(fs, sp, m, c, k, g). k]") auto


definition create_node ::
  "'f list \<Rightarrow> real \<Rightarrow> int \<Rightarrow> rnd_engine \<Rightarrow> 'f CSGNode \<times> rnd_engine" where
  "create_node fs sp maxDepth g =
     (if maxDepth = 0 then
        (let (funcIdx, g1) = uniform_int 0 (int (length fs) - 1) g
         in (Geometry (fs ! nat funcIdx), g1))
      else
        (let (op, g1) = uniform_int 1 3 g;
             ty = operationOfInt op;
             (cs, g2) = create_childs fs sp maxDepth 1 (numChildsFor ty) g1
         in (addChilds (createOperation ty) cs, g2)))"

text \<open>
  Every tree that \<^verbatim>\<open>create\<close> builds has a leaf, and every leaf reads
  \<^verbatim>\<open>_functions[funcIdx]\<close> with \<open>funcIdx\<close> drawn from \<open>[0, size - 1]\<close>: with no
  functions the draw and the read are undefined, which is the result \<open>None\<close>.
\<close>

definition CSGNodeCreator_create ::
  "'f CSGNodeCreator \<Rightarrow> int \<Rightarrow> ('f CSGNode \<times> 'f CSGNodeCreator) option" where
  "CSGNodeCreator_create C maxDepth =
     (if node_functions C = [] then None
      else (let (t, g) = create_node (node_functions C) (subtreeProb C) maxDepth (rndEngine C)
            in Some (t, C\<lparr>rndEngine := g\<rparr>)))"

definition CSGNodeCreator_mutate ::
  "'f CSGNodeCreator \<Rightarrow> 'f CSGNode \<Rightarrow> ('f CSGNode \<times> 'f CSGNodeCreator) option" where
  "CSGNodeCreator_mutate C node =
     (let (b, g1) = bernoulli (createNewRandomProb C) (rndEngine C) in
      if b then CSGNodeCreator_create (C\<lparr>rndEngine := g1\<rparr>) (maxTreeDepth C)
      else
        (let (nodeIdx, g2) = uniform_int 0 (int (numNodes node) - 1) g1;
             newNode = node;
             maxSubtreeDepth = maxTreeDepth C - int (depth newNode)
         in case CSGNodeCreator_create (C\<lparr>rndEngine := g2\<rparr>) maxSubtreeDepth of
              None \<Rightarrow> None
            | Some (sub, C') \<Rightarrow>
                (case assignPtrAt newNode nodeIdx sub of
                   None \<Rightarrow> None
                 | Some t \<Rightarrow> Some (t, C'))))"

text \<open>
  The swap of \<^verbatim>\<open>crossover\<close> at two given node indices, and the choice of the two
  results. \<open>None\<close> is a null pointer from \<^verbatim>\<open>nodePtrAt\<close>.
\<close>

definition crossover_at ::
  "int \<Rightarrow> 'f CSGNode \<Rightarrow> 'f CSGNode \<Rightarrow> int \<Rightarrow> int \<Rightarrow> 'f CSGNode list option" where
  "crossover_at maxDepth node1 node2 nodeIdx1 nodeIdx2 =
     (case (nodePtrAt node1 nodeIdx1, nodePtrAt node2 nodeIdx2) of
        (Some subNode1, Some subNode2) \<Rightarrow>
          (case (assignPtrAt node1 nodeIdx1 subNode2, assignPtrAt node2 nodeIdx2 subNode1) of
             (Some newNode1, Some newNode2) \<Rightarrow>
               Some [if int (depth newNode1) \<le> maxDepth then newNode1 else node1,
                     if int (depth newNode2) \<le> maxDepth then newNode2 else node1]
           | _ \<Rightarrow> None)
      | _ \<Rightarrow> None)"

definition CSGNodeCreator_crossover ::
  "'f CSGNodeCreator \<Rightarrow> 'f CSGNode \<Rightarrow> 'f CSGNode \<Rightarrow> ('f CSGNode list \<times> 'f CSGNodeCreator) option" where
  "CSGNodeCreator_crossover C node1 node2 =
     (let numNodes1 = int (numNodes node1);
          numNodes2 = int (numNodes node2);
          (nodeIdx1, g1) = uniform_int 0 (numNodes1 - 1) (rndEngine C);
          (nodeIdx2, g2) = uniform_int 0 (numNodes2 - 1) g1
      in case crossover_at (maxTreeDepth C) node1 node2 nodeIdx1 nodeIdx2 of
           None \<Rightarrow> None
         | Some res \<Rightarrow> Some (res, C\<lparr>rndEngine := g2\<rparr>))"

section \<open>CSG node ranker and the clique orchestrator\<close>





definition DBL_MAX :: real where
  "DBL_MAX = (2 - 1 / 2 ^ 52) * 2 ^ 1023"





section \<open>Pipeline driver\<close>

datatype exn = Exception string

datatype CSGNodeType = Operation_t | Geometry_t

fun node_type :: "'f CSGNode \<Rightarrow> CSGNodeType" where
  "node_type (Geometry f) = Geometry_t"
| "node_type (Operation ty nm cs) = Operation_t"

text \<open>
  Modelled from the spec: \<^verbatim>\<open>operationType\<close> and \<^verbatim>\<open>opNo\<close> of the CSG node module,
  which is not among the sources. \<open>opNo\<close> is the single Noop operator without children.
\<close>

fun operationType :: "'f CSGNode \<Rightarrow> CSGNodeOperationType" where
  "operationType (Geometry f) = Invalid"
| "operationType (Operation ty nm cs) = ty"

definition opNo :: "'f CSGNode" where
  "opNo = Operation Noop [] []"

record PipelineParams =
  optimizer :: string
  tree_file :: string
  sampling_grid_size :: real
  save_meshes :: bool
  use_decomposition :: bool
  use_redundancy_removal :: bool
  use_cit_points_for_decomposition :: bool
  use_cit_points_for_redundancy_removal :: bool

text \<open>
  What the driver does to the outside is an event; the trace is the list of events in
  the order they happen. An optimizer, the decomposition and the redundancy removal
  each leave an event when invoked.
\<close>

datatype event =
  LoadTree string
| SaveMesh string
| WriteNode string
| RemoveRedundancies
| GenerateCITs
| Decompose
| Optimizer string

type_synonym trace = "event list"

text \<open>
  The collaborators of the driver, none of them among the sources: the tree reader,
  the tree transformations, the optimizers, and the sampling of the point sets
  (\<open>'s\<close> is \<^verbatim>\<open>CITSampling\<close>, \<open>'pc\<close> a point cloud). Those called inside a
  \<^verbatim>\<open>try\<close> block may throw.
\<close>

record ('f, 's, 'pc) collaborators =
  fromJSONFile :: "string \<Rightarrow> exn + 'f CSGNode"
  to_binary_tree :: "'f CSGNode \<Rightarrow> exn + 'f CSGNode"
  filter_name_duplicates :: "'f CSGNode \<Rightarrow> 'f CSGNode"
  remove_redundancies :: "'f CSGNode \<Rightarrow> real \<Rightarrow> 'pc \<Rightarrow> 'f CSGNode"
  cit_empty :: "'s \<Rightarrow> bool"
  cit_initial :: 's
  cit_generate :: "'f CSGNode \<Rightarrow> 'f list \<Rightarrow> real \<Rightarrow> 's"
  cit_in_out :: "'s \<Rightarrow> 'pc"
  optimize_with_decomposition ::
    "'f CSGNode \<Rightarrow> real \<Rightarrow> bool \<Rightarrow> 'pc \<Rightarrow> bool \<Rightarrow>
     ('f CSGNode \<Rightarrow> 'f list \<Rightarrow> trace \<Rightarrow> (exn + 'f CSGNode) \<times> trace) \<Rightarrow>
     trace \<Rightarrow> (exn + 'f CSGNode) \<times> trace"
  optimize_with_ga :: "'f CSGNode \<Rightarrow> 'f list \<Rightarrow> exn + 'f CSGNode"
  optimize_pi_set_cover :: "'f CSGNode \<Rightarrow> 'f list \<Rightarrow> exn + 'f CSGNode"
  optimize_with_python :: "'f CSGNode \<Rightarrow> string \<Rightarrow> exn + 'f CSGNode"
  transform_to_diffs :: "'f CSGNode \<Rightarrow> exn + 'f CSGNode"

definition sample_if_empty ::
  "('f, 's, 'pc) collaborators \<Rightarrow> 'f CSGNode \<Rightarrow> 'f list \<Rightarrow> real \<Rightarrow> 's \<Rightarrow> trace \<Rightarrow> 's \<times> trace" where
  "sample_if_empty E n primitives grid_size cit_sampling tr =
     (if \<not> cit_empty E cit_sampling then (cit_sampling, tr)
      else (cit_generate E n primitives grid_size, tr @ [GenerateCITs]))"

definition PipelineRunner_load ::
  "('f, 's, 'pc) collaborators \<Rightarrow> string \<Rightarrow> PipelineParams \<Rightarrow> trace \<Rightarrow> 'f CSGNode \<times> trace" where
  "PipelineRunner_load E output_folder pp tr =
     (let node = opNo;
          tr1 = tr @ [LoadTree (tree_file pp)]
      in case fromJSONFile E (tree_file pp) of
           Inl ex \<Rightarrow> (node, tr1)
         | Inr loaded \<Rightarrow>
             (case to_binary_tree E loaded of
                Inl ex \<Rightarrow> (loaded, tr1)
              | Inr node' \<Rightarrow>
                  (let tr2 = (if save_meshes pp
                              then tr1 @ [SaveMesh (output_folder @ ''/input.obj'')] else tr1)
                   in (node', tr2 @ [WriteNode (output_folder @ ''/input.gv'')]))))"

text \<open>
  After the optimizer of the \<open>Sampling\<close> branches: the result is made binary and
  turned into differences; either step may throw.
\<close>

definition binary_diffs ::
  "('f, 's, 'pc) collaborators \<Rightarrow> exn + 'f CSGNode \<Rightarrow> exn + 'f CSGNode" where
  "binary_diffs E r =
     (case r of
        Inl ex \<Rightarrow> Inl ex
      | Inr opt_node \<Rightarrow>
          (case to_binary_tree E opt_node of
             Inl ex \<Rightarrow> Inl ex
           | Inr b \<Rightarrow> transform_to_diffs E b))"

definition PipelineRunner_optimize ::
  "('f, 's, 'pc) collaborators \<Rightarrow> PipelineParams \<Rightarrow> 'f CSGNode \<Rightarrow> 'f list \<Rightarrow> trace \<Rightarrow>
   (exn + 'f CSGNode) \<times> trace" where
  "PipelineRunner_optimize E pp node prims tr =
     (if optimizer pp = ''GA'' then
        (optimize_with_ga E node prims, tr @ [Optimizer ''GA''])
      else if optimizer pp = ''Sampling.SetCover'' then
        (binary_diffs E (optimize_pi_set_cover E node prims), tr @ [Optimizer ''Sampling.SetCover''])
      else if optimizer pp = ''Sampling.QuineMcCluskey'' then
        (binary_diffs E (optimize_with_python E node ''SIMPY_SIMPLIFY_LOGIC''),
         tr @ [Optimizer ''Sampling.QuineMcCluskey''])
      else if optimizer pp = ''Sampling.Espresso'' then
        (binary_diffs E (optimize_with_python E node ''ESPRESSO''),
         tr @ [Optimizer ''Sampling.Espresso''])
      else
        (Inl (Exception (''Optimizer with name '' @ optimizer pp @ '' does not exist.'')), tr))"

text \<open>The part of \<^verbatim>\<open>run\<close> after the guard on the loaded node.\<close>

definition run_loaded ::
  "('f, 's, 'pc) collaborators \<Rightarrow> string \<Rightarrow> PipelineParams \<Rightarrow> 'f CSGNode \<Rightarrow> trace \<Rightarrow> int \<times> trace" where
  "run_loaded E output_folder pp node0 tr0 =
     (let cit0 = cit_initial E;
          node1 = filter_name_duplicates E node0;
          (node2, cit1, tr1) =
             (if use_redundancy_removal pp then
                (let (c, t) = (if use_cit_points_for_redundancy_removal pp
                               then sample_if_empty E node1 [] (sampling_grid_size pp) cit0 tr0
                               else (cit0, tr0))
                 in (remove_redundancies E node1 (sampling_grid_size pp) (cit_in_out E c), c,
                     t @ [RemoveRedundancies]))
              else (node1, cit0, tr0));
          tr2 = (if save_meshes pp
                 then tr1 @ [SaveMesh (output_folder @ ''/after_red.obj'')] else tr1);
          tr3 = tr2 @ [WriteNode (output_folder @ ''/after_red.gv'')];
          (res, cit2, tr4) =
             (if use_decomposition pp then
                (let (c, t) = (if use_cit_points_for_decomposition pp
                               then sample_if_empty E node2 [] (sampling_grid_size pp) cit1 tr3
                               else (cit1, tr3));
                     (r, t') = optimize_with_decomposition E node2 (sampling_grid_size pp) True
                                 (cit_in_out E c) (use_cit_points_for_decomposition pp)
                                 (\<lambda>node prims. PipelineRunner_optimize E pp node prims)
                                 (t @ [Decompose])
                 in (r, c, t'))
              else
                (let (r, t) = PipelineRunner_optimize E pp node2 [] tr3 in (r, cit1, t)))
      in case res of
           Inl ex \<Rightarrow> (1, tr4)
         | Inr node3 \<Rightarrow>
             if node_type node3 = Operation_t \<and> operationType node3 = Noop then (1, tr4)
             else
               (let (node4, tr5) =
                      (if use_redundancy_removal pp then
                         (let (c, t) = (if use_cit_points_for_redundancy_removal pp
                                        then sample_if_empty E node3 [] (sampling_grid_size pp) cit2 tr4
                                        else (cit2, tr4))
                          in (remove_redundancies E node3 (sampling_grid_size pp) (cit_in_out E c),
                              t @ [RemoveRedundancies]))
                       else (node3, tr4));
                    tr6 = tr5 @ [WriteNode (output_folder @ ''/output.gv'')];
                    tr7 = (if save_meshes pp
                           then tr6 @ [SaveMesh (output_folder @ ''/output.obj'')] else tr6)
                in (0, tr7)))"

definition PipelineRunner_run ::
  "('f, 's, 'pc) collaborators \<Rightarrow> string \<Rightarrow> PipelineParams \<Rightarrow> int \<times> trace" where
  "PipelineRunner_run E output_folder pp =
     (let (node, tr) = PipelineRunner_load E output_folder pp []
      in if operationType node = Noop then (1, tr)
         else run_loaded E output_folder pp node tr)"

section \<open>Vectors, manifolds and primitives\<close>

type_synonym vec3 = "real \<times> real \<times> real"

definition dot :: "vec3 \<Rightarrow> vec3 \<Rightarrow> real" where
  "dot a b = (case a of (ax, ay, az) \<Rightarrow> case b of (bx, by, bz) \<Rightarrow> ax * bx + ay * by + az * bz)"

definition vadd :: "vec3 \<Rightarrow> vec3 \<Rightarrow> vec3" where
  "vadd a b = (case a of (ax, ay, az) \<Rightarrow> case b of (bx, by, bz) \<Rightarrow> (ax + bx, ay + by, az + bz))"

definition vsub :: "vec3 \<Rightarrow> vec3 \<Rightarrow> vec3" where
  "vsub a b = (case a of (ax, ay, az) \<Rightarrow> case b of (bx, by, bz) \<Rightarrow> (ax - bx, ay - by, az - bz))"

definition smul :: "real \<Rightarrow> vec3 \<Rightarrow> vec3" where
  "smul k a = (case a of (ax, ay, az) \<Rightarrow> (k * ax, k * ay, k * az))"

definition vnorm :: "vec3 \<Rightarrow> real" where
  "vnorm a = sqrt (dot a a)"

text \<open>Eigen's \<^verbatim>\<open>normalized()\<close> returns the zero vector unchanged.\<close>

definition normalized :: "vec3 \<Rightarrow> vec3" where
  "normalized a = (if vnorm a = 0 then a else smul (1 / vnorm a) a)"

definition vx :: "vec3 \<Rightarrow> real" where
  "vx a = fst a"

datatype ManifoldType = PlaneManifold | CylinderManifold | SphereManifold

text \<open>A point cloud is the list of its rows, each a position and a normal.\<close>

type_synonym PointCloud = "(vec3 \<times> vec3) list"

record Manifold =
  m_type :: ManifoldType
  m_p :: vec3
  m_n :: vec3
  m_r :: vec3
  m_pc :: PointCloud

type_synonym ManifoldSet = "Manifold list"

datatype PrimitiveType = NonePrimitive | Box | Cylinder | Sphere

text \<open>
  An implicit function is recorded by the arguments of its constructor:
  a polytope by the points and normals of its planes, a sphere by its centre and
  radius, a cylinder by the translation and the axis whose rotation make up its
  transform, its radius and its height.
\<close>

datatype ImplicitFunction =
  IFPolytope "vec3 list" "vec3 list"
| IFSphere vec3 real
| IFCylinder vec3 vec3 real real

record Primitive =
  imFunc :: "ImplicitFunction option"
  prim_ms :: ManifoldSet
  prim_type :: PrimitiveType
  cutout :: bool

type_synonym PrimitiveSet = "Primitive list"

text \<open>
  Modelled from the spec: the \<^verbatim>\<open>Primitive\<close> class is declared outside the sources.
  \<^verbatim>\<open>Primitive::None()\<close> has kind None, no implicit function and no manifolds; a
  newly constructed primitive is not a cutout.
\<close>

definition Primitive_None :: Primitive where
  "Primitive_None = \<lparr>imFunc = None, prim_ms = [], prim_type = NonePrimitive, cutout = False\<rparr>"

definition Primitive_new :: "ImplicitFunction \<Rightarrow> ManifoldSet \<Rightarrow> PrimitiveType \<Rightarrow> Primitive" where
  "Primitive_new f ms ty = \<lparr>imFunc = Some f, prim_ms = ms, prim_type = ty, cutout = False\<rparr>"

definition isNone :: "Primitive \<Rightarrow> bool" where
  "isNone p = (prim_type p = NonePrimitive)"

section \<open>Primitive construction\<close>

text \<open>
  The orientation test of a pair of planes in \<^verbatim>\<open>createBoxPrimitive\<close>: both
  quotients are computed from the normals as given, then each normal is negated when
  its quotient is not negative. Where \<open>n1 \<cdot> n2 = 0\<close> the code divides by zero,
  which the real numbers do not render.
\<close>

definition orientPair :: "Manifold \<Rightarrow> Manifold \<Rightarrow> Manifold \<times> Manifold" where
  "orientPair newPlane1 newPlane2 =
     (let p1 = m_p newPlane1; n1 = m_n newPlane1;
          p2 = m_p newPlane2; n2 = m_n newPlane2;
          d1 = dot (vsub p2 p1) n2 / dot n1 n2;
          d2 = dot (vsub p1 p2) n1 / dot n2 n1
      in ((if d1 \<ge> 0 then newPlane1\<lparr>m_n := smul (-1) (m_n newPlane1)\<rparr> else newPlane1),
          (if d2 \<ge> 0 then newPlane2\<lparr>m_n := smul (-1) (m_n newPlane2)\<rparr> else newPlane2)))"

text \<open>
  The parameter at which the ray from the point of plane \<open>a\<close> along its normal meets
  plane \<open>b\<close>. The normal of \<open>a\<close> points away from \<open>b\<close> when the parameter is not
  positive, and toward \<open>b\<close> when it is not negative.
\<close>

definition rayParameter :: "Manifold \<Rightarrow> Manifold \<Rightarrow> real" where
  "rayParameter a b = dot (vsub (m_p b) (m_p a)) (m_n b) / dot (m_n a) (m_n b)"

definition normalsPointAway :: "Manifold \<Rightarrow> Manifold \<Rightarrow> bool" where
  "normalsPointAway a b = (rayParameter a b \<le> 0 \<and> rayParameter b a \<le> 0)"

text \<open>
  Facing each other in the words of the specification: the two normals of a pair face
  inward relative to each other, each toward the partner plane.
\<close>

definition faceEachOther :: "Manifold \<Rightarrow> Manifold \<Rightarrow> bool" where
  "faceEachOther a b = (rayParameter a b \<ge> 0 \<and> rayParameter b a \<ge> 0)"

text \<open>
  The direction test of \<^verbatim>\<open>getManifold\<close>: two directions are parallel within an
  angle, up to sign.
\<close>

definition parallelWithin :: "real \<Rightarrow> vec3 \<Rightarrow> vec3 \<Rightarrow> bool" where
  "parallelWithin angleEps d1 d2 = (\<bar>dot d1 d2\<bar> > cos angleEps)"

text \<open>
  The loop of \<^verbatim>\<open>createBoxPrimitive\<close> over the pairs \<open>(planes[2i], planes[2i+1])\<close>.
\<close>

fun orientPairs :: "ManifoldSet \<Rightarrow> ManifoldSet" where
  "orientPairs (a # b # rest) = (case orientPair a b of (a', b') \<Rightarrow> a' # b' # orientPairs rest)"
| "orientPairs rest = []"

text \<open>The same plane, with its normal as it was or negated.\<close>

definition samePlaneUpToSign :: "Manifold \<Rightarrow> Manifold \<Rightarrow> bool" where
  "samePlaneUpToSign a' a =
     (m_type a' = m_type a \<and> m_p a' = m_p a \<and> m_r a' = m_r a \<and> m_pc a' = m_pc a
      \<and> (m_n a' = m_n a \<or> m_n a' = smul (-1) (m_n a)))"

text \<open>
  Whether the polytope of the given plane points and normals is empty
  (\<^verbatim>\<open>IFPolytope::empty\<close>) is decided outside the sources and is the parameter
  \<open>polytope_empty\<close>.
\<close>

definition createBoxPrimitive :: "(vec3 list \<Rightarrow> vec3 list \<Rightarrow> bool) \<Rightarrow> ManifoldSet \<Rightarrow> Primitive" where
  "createBoxPrimitive polytope_empty planes =
     (if length planes \<noteq> 6 then Primitive_None
      else
        (let ms = orientPairs planes;
             p = map m_p ms;
             n = map m_n ms
         in if polytope_empty p n then Primitive_None
            else Primitive_new (IFPolytope p n) ms Box))"

definition createSpherePrimitive :: "Manifold option \<Rightarrow> Primitive" where
  "createSpherePrimitive m =
     (case m of
        None \<Rightarrow> Primitive_None
      | Some m \<Rightarrow>
          if m_type m \<noteq> SphereManifold then Primitive_None
          else Primitive_new (IFSphere (m_p m) (vx (m_r m))) [m] Sphere)"

definition estimateCylinderHeightFromPointCloud :: "Manifold \<Rightarrow> real" where
  "estimateCylinderHeightFromPointCloud m =
     (let ts = map (\<lambda>row.
                 let p = fst row; a = m_p m; ab = m_n m; ap = vsub p a;
                     proj_p = vadd a (smul (dot ap ab / dot ab ab) ab)
                 in (vx proj_p - vx (m_p m)) / vx (m_n m)) (m_pc m);
          min_t = fold (\<lambda>t min_t. if t < min_t then t else min_t) ts DBL_MAX;
          max_t = fold (\<lambda>t max_t. if t > max_t then t else max_t) ts (- DBL_MAX);
          min_p = vadd (m_p m) (smul min_t (m_n m));
          max_p = vadd (m_p m) (smul max_t (m_n m))
      in vnorm (vsub max_p min_p))"

text \<open>
  The column-wise minimum and maximum of the positions of a point cloud. Eigen does
  not define them for a cloud without rows: the result is \<open>None\<close>.
\<close>

definition colwiseMin :: "PointCloud \<Rightarrow> vec3 option" where
  "colwiseMin pc =
     (case map fst pc of
        [] \<Rightarrow> None
      | q # qs \<Rightarrow> Some (fold (\<lambda>(x, y, z) (ax, ay, az). (min ax x, min ay y, min az z)) qs q))"

definition colwiseMax :: "PointCloud \<Rightarrow> vec3 option" where
  "colwiseMax pc =
     (case map fst pc of
        [] \<Rightarrow> None
      | q # qs \<Rightarrow> Some (fold (\<lambda>(x, y, z) (ax, ay, az). (max ax x, max ay y, max az z)) qs q))"

definition estimateSecondCylinderPlaneFromPointCloud :: "Manifold \<Rightarrow> Manifold \<Rightarrow> Manifold option" where
  "estimateSecondCylinderPlaneFromPointCloud m firstPlane =
     (case (colwiseMin (m_pc m), colwiseMax (m_pc m)) of
        (Some minPos, Some maxPos) \<Rightarrow>
          (let p = (if vnorm (vsub (m_p firstPlane) minPos) > vnorm (vsub (m_p firstPlane) maxPos)
                    then minPos else maxPos)
           in Some \<lparr>m_type = PlaneManifold, m_p = p, m_n = smul (-1) (m_n firstPlane),
                    m_r = (0, 0, 0), m_pc = []\<rparr>)
      | _ \<Rightarrow> None)"

text \<open>
  The point where the axis of the cylinder \<open>m\<close> meets a plane, as computed in
  \<^verbatim>\<open>createCylinderPrimitive\<close>. Where the axis is parallel to the plane the code
  divides by zero.
\<close>

definition axisIntersection :: "Manifold \<Rightarrow> Manifold \<Rightarrow> vec3" where
  "axisIntersection m plane =
     (let p0 = m_p plane; l0 = m_p m; l = m_n m; n = m_n plane;
          d = dot (vsub p0 l0) n / dot l n
      in vadd (smul d l) l0)"

definition cylinderFromTwoPlanes :: "Manifold \<Rightarrow> Manifold \<Rightarrow> Manifold \<Rightarrow> Primitive" where
  "cylinderFromTwoPlanes m plane0 plane1 =
     (let i0 = axisIntersection m plane0;
          i1 = axisIntersection m plane1;
          height = vnorm (vsub i0 i1);
          pos = vadd i0 (smul 0.5 (vsub i1 i0))
      in Primitive_new (IFCylinder pos (m_n m) (vx (m_r m)) height) [m, plane0, plane1] Cylinder)"

text \<open>
  \<^verbatim>\<open>createCylinderPrimitive\<close>: with one plane the second is estimated and appended,
  and control falls through to the case of two planes. \<open>None\<close> is the undefined
  estimate on a cylinder manifold without points.
\<close>

definition createCylinderPrimitive :: "Manifold \<Rightarrow> ManifoldSet \<Rightarrow> Primitive option" where
  "createCylinderPrimitive m planes =
     (if length planes = 1 then
        (case estimateSecondCylinderPlaneFromPointCloud m (planes ! 0) of
           None \<Rightarrow> None
         | Some second \<Rightarrow> Some (cylinderFromTwoPlanes m (planes ! 0) second))
      else if length planes = 2 then
        Some (cylinderFromTwoPlanes m (planes ! 0) (planes ! 1))
      else if length planes = 0 then
        (let height = estimateCylinderHeightFromPointCloud m;
             pos = m_p m
         in Some (Primitive_new (IFCylinder pos (m_n m) (vx (m_r m)) height) [m] Cylinder))
      else Some Primitive_None)"

section \<open>Primitive set creator\<close>

definition discrete_draw :: "real list \<Rightarrow> rnd_engine \<Rightarrow> int \<times> rnd_engine" where
  "discrete_draw ws g =
     (let support = filter (\<lambda>i. 0 < ws ! i) [0..<length ws]
      in ((if support = [] then 0 else int (support ! (shd g mod length support))), stl g))"

text \<open>
  Modelled from the spec: the enumeration \<^verbatim>\<open>MutationType\<close> is declared outside the
  sources; its order is that of the mutation distribution,
  NEW, REPLACE, MODIFY, REMOVE, ADD. \<open>OtherMutation\<close> is any other value of the cast.
\<close>

datatype MutationType = NEW | REPLACE | MODIFY | REMOVE | ADD | OtherMutation int

definition mutationTypeOfInt :: "int \<Rightarrow> MutationType" where
  "mutationTypeOfInt i =
     (if i = 0 then NEW else if i = 1 then REPLACE else if i = 2 then MODIFY
      else if i = 3 then REMOVE else if i = 4 then ADD else OtherMutation i)"

record PrimitiveSetCreator =
  ms :: ManifoldSet
  intraCrossProb :: real
  mutationDistribution :: "real list"
  maxMutationIterations :: int
  maxCrossoverIterations :: int
  maxPrimitiveSetSize :: int
  angleEpsilon :: real
  availableManifoldTypes :: "ManifoldType list"
  minDistanceBetweenParallelPlanes :: real
  prim_rndEngine :: rnd_engine

text \<open>
  What the creator takes from outside the sources: the equality of manifolds up to a
  tolerance (\<^verbatim>\<open>manifoldsEqual\<close>), the emptiness test of a polytope, and the default
  arguments \<^verbatim>\<open>ignoreDirection\<close>, \<^verbatim>\<open>point\<close> and \<^verbatim>\<open>minimumPointDistance\<close> of
  \<^verbatim>\<open>getManifold\<close>, which its declaration fixes.
\<close>

record externals =
  manifoldsEqual :: "Manifold \<Rightarrow> Manifold \<Rightarrow> real \<Rightarrow> bool"
  polytope_empty :: "vec3 list \<Rightarrow> vec3 list \<Rightarrow> bool"
  default_ignoreDirection :: bool
  default_point :: vec3
  default_minimumPointDistance :: real

text \<open>
  \<^verbatim>\<open>std::unordered_set\<close> fixes no iteration order; the available manifold types are
  listed in the order of their first occurrence.
\<close>

definition getAvailableManifoldTypes :: "ManifoldSet \<Rightarrow> ManifoldType list" where
  "getAvailableManifoldTypes mset = remdups (map m_type mset)"

definition PrimitiveSetCreator_new ::
  "(nat \<Rightarrow> rnd_engine) \<Rightarrow> nat \<Rightarrow> ManifoldSet \<Rightarrow> real \<Rightarrow> real list \<Rightarrow> int \<Rightarrow> int \<Rightarrow> int \<Rightarrow>
   real \<Rightarrow> real \<Rightarrow> PrimitiveSetCreator" where
  "PrimitiveSetCreator_new seeded rndDevice mset intraCross mutationDist maxMutationIters
     maxCrossoverIters maxSetSize angleEps minDistance =
     \<lparr>ms = mset, intraCrossProb = intraCross, mutationDistribution = mutationDist,
      maxMutationIterations = maxMutationIters, maxCrossoverIterations = maxCrossoverIters,
      maxPrimitiveSetSize = maxSetSize, angleEpsilon = angleEps,
      availableManifoldTypes = getAvailableManifoldTypes mset,
      minDistanceBetweenParallelPlanes = minDistance, prim_rndEngine = seeded rndDevice\<rparr>"

definition getManifold ::
  "externals \<Rightarrow> PrimitiveSetCreator \<Rightarrow> ManifoldType \<Rightarrow> vec3 \<Rightarrow> ManifoldSet \<Rightarrow> real \<Rightarrow> bool \<Rightarrow>
   vec3 \<Rightarrow> real \<Rightarrow> rnd_engine \<Rightarrow> Manifold option \<times> rnd_engine" where
  "getManifold X C type direction alreadyUsed angleEps ignoreDirection point minimumPointDistance g =
     (let cos_e = cos angleEps;
          candidates = filter (\<lambda>m.
              m_type m = type
            \<and> \<not> (\<exists>alreadyUsedM\<in>set alreadyUsed. manifoldsEqual X m alreadyUsedM 0.0001)
            \<and> (ignoreDirection \<or> \<bar>dot direction (m_n m)\<bar> > cos_e)
            \<and> \<bar>dot (vsub point (m_p m)) (m_n m)\<bar> > minimumPointDistance) (ms C)
      in if candidates = [] then (None, g)
         else (let (i, g1) = uniform_int 0 (int (length candidates) - 1) g
               in (Some (candidates ! nat i), g1)))"

definition getPerpendicularPlane ::
  "externals \<Rightarrow> PrimitiveSetCreator \<Rightarrow> ManifoldSet \<Rightarrow> ManifoldSet \<Rightarrow> real \<Rightarrow> rnd_engine \<Rightarrow>
   Manifold option \<times> rnd_engine" where
  "getPerpendicularPlane X C planes alreadyUsed angleEps g =
     (let cos_e = cos angleEps;
          candidates = filter (\<lambda>m.
              if m_type m \<noteq> PlaneManifold then False
              else if \<exists>alreadyUsedM\<in>set alreadyUsed. manifoldsEqual X m alreadyUsedM 0.0001 then False
              else \<not> (\<exists>plane\<in>set planes. \<bar>dot (m_n plane) (m_n m)\<bar> \<ge> cos_e)) (ms C)
      in if candidates = [] then (None, g)
         else (let (i, g1) = uniform_int 0 (int (length candidates) - 1) g
               in (Some (candidates ! nat i), g1)))"

definition getParallelPlane ::
  "externals \<Rightarrow> PrimitiveSetCreator \<Rightarrow> Manifold \<Rightarrow> ManifoldSet \<Rightarrow> real \<Rightarrow> real \<Rightarrow> rnd_engine \<Rightarrow>
   Manifold option \<times> rnd_engine" where
  "getParallelPlane X C plane alreadyUsed angleEps minDistanceToParallelPlane g =
     getManifold X C PlaneManifold (m_n plane) alreadyUsed angleEps False (m_p plane)
       minDistanceToParallelPlane g"

text \<open>
  With no manifold type available both the draw over \<open>[0, -1]\<close> and the read of the
  iterator are undefined: the result is \<open>None\<close>.
\<close>

definition getRandomPrimitiveType ::
  "PrimitiveSetCreator \<Rightarrow> rnd_engine \<Rightarrow> (PrimitiveType \<times> rnd_engine) option" where
  "getRandomPrimitiveType C g =
     (if availableManifoldTypes C = [] then None
      else (let (k, g1) = uniform_int 0 (int (length (availableManifoldTypes C)) - 1) g
            in Some ((case availableManifoldTypes C ! nat k of
                        PlaneManifold \<Rightarrow> Box
                      | CylinderManifold \<Rightarrow> Cylinder
                      | _ \<Rightarrow> NonePrimitive), g1)))"

text \<open>
  The six planes of a box are looked for one after the other; the first that is not
  found ends the search (\<^verbatim>\<open>break\<close>) with the primitive None.
\<close>

definition createBox :: "externals \<Rightarrow> PrimitiveSetCreator \<Rightarrow> rnd_engine \<Rightarrow> Primitive \<times> rnd_engine" where
  "createBox X C g =
     (case getManifold X C PlaneManifold (0, 0, 0) [] 0 True
             (default_point X) (default_minimumPointDistance X) g of
        (None, g1) \<Rightarrow> (Primitive_None, g1)
      | (Some pl0, g1) \<Rightarrow>
     (case getParallelPlane X C pl0 [pl0] (angleEpsilon C) (minDistanceBetweenParallelPlanes C) g1 of
        (None, g2) \<Rightarrow> (Primitive_None, g2)
      | (Some pl1, g2) \<Rightarrow>
     (case getPerpendicularPlane X C [pl0, pl1] [pl0, pl1] (angleEpsilon C) g2 of
        (None, g3) \<Rightarrow> (Primitive_None, g3)
      | (Some pl2, g3) \<Rightarrow>
     (case getParallelPlane X C pl2 [pl0, pl1, pl2] (angleEpsilon C)
             (minDistanceBetweenParallelPlanes C) g3 of
        (None, g4) \<Rightarrow> (Primitive_None, g4)
      | (Some pl3, g4) \<Rightarrow>
     (case getPerpendicularPlane X C [pl0, pl1, pl2, pl3] [pl0, pl1, pl2, pl3] (angleEpsilon C) g4 of
        (None, g5) \<Rightarrow> (Primitive_None, g5)
      | (Some pl4, g5) \<Rightarrow>
     (case getParallelPlane X C pl4 [pl0, pl1, pl2, pl3, pl4] (angleEpsilon C)
             (minDistanceBetweenParallelPlanes C) g5 of
        (None, g6) \<Rightarrow> (Primitive_None, g6)
      | (Some pl5, g6) \<Rightarrow>
          (createBoxPrimitive (polytope_empty X) [pl0, pl1, pl2, pl3, pl4, pl5], g6)))))))"

text \<open>
  The selection of up to two cap planes for a cylinder, in \<^verbatim>\<open>createPrimitive\<close> and
  in \<^verbatim>\<open>mutatePrimitive\<close>: \<open>k\<close> rounds remain.
\<close>

fun selectCapPlanes ::
  "externals \<Rightarrow> PrimitiveSetCreator \<Rightarrow> Manifold \<Rightarrow> real \<Rightarrow> nat \<Rightarrow> ManifoldSet \<Rightarrow> rnd_engine \<Rightarrow>
   ManifoldSet \<times> rnd_engine" where
  "selectCapPlanes X C cyl angleEps 0 planes g = (planes, g)"
| "selectCapPlanes X C cyl angleEps (Suc k) planes g =
     (case getManifold X C PlaneManifold (m_n cyl) planes angleEps (default_ignoreDirection X)
             (default_point X) (default_minimumPointDistance X) g of
        (None, g1) \<Rightarrow> selectCapPlanes X C cyl angleEps k planes g1
      | (Some p, g1) \<Rightarrow> selectCapPlanes X C cyl angleEps k (planes @ [p]) g1)"

definition createPrimitive ::
  "externals \<Rightarrow> PrimitiveSetCreator \<Rightarrow> rnd_engine \<Rightarrow> (Primitive \<times> rnd_engine) option" where
  "createPrimitive X C g =
     (case getRandomPrimitiveType C g of
        None \<Rightarrow> None
      | Some (primitiveType, g0) \<Rightarrow>
          (case (case primitiveType of
                   Box \<Rightarrow> Some (createBox X C g0)
                 | Cylinder \<Rightarrow>
                     (case getManifold X C CylinderManifold (0, 0, 0) [] 0 True
                             (default_point X) (default_minimumPointDistance X) g0 of
                        (None, g1) \<Rightarrow> Some (Primitive_None, g1)
                      | (Some cyl, g1) \<Rightarrow>
                          (let (numPlanesToSelect, g2) = uniform_int 0 2 g1;
                               (planes, g3) = selectCapPlanes X C cyl (angleEpsilon C)
                                                (nat numPlanesToSelect) [] g2
                           in map_option (\<lambda>p. (p, g3)) (createCylinderPrimitive cyl planes)))
                 | Sphere \<Rightarrow>
                     (case getManifold X C SphereManifold (0, 0, 0) [] 0 True
                             (default_point X) (default_minimumPointDistance X) g0 of
                        (None, g1) \<Rightarrow> Some (Primitive_None, g1)
                      | (Some sphere, g1) \<Rightarrow> Some (createSpherePrimitive (Some sphere), g1))
                 | NonePrimitive \<Rightarrow> Some (Primitive_None, g0)) of
             None \<Rightarrow> None
           | Some (primitive, g4) \<Rightarrow>
               (let (c, g5) = bernoulli 0.5 g4
                in Some (primitive\<lparr>cutout := c\<rparr>, g5))))"

text \<open>
  \<^verbatim>\<open>mutatePrimitive\<close>. The \<^verbatim>\<open>switch\<close> has a case for boxes and a case for cylinders
  and no other; after it the cutout flag is drawn anew, whatever the kind. \<open>None\<close> is a
  read beyond the manifolds of the primitive, or the undefined cap estimate.
\<close>

definition mutatePrimitive ::
  "externals \<Rightarrow> PrimitiveSetCreator \<Rightarrow> Primitive \<Rightarrow> real \<Rightarrow> rnd_engine \<Rightarrow>
   (Primitive \<times> rnd_engine) option" where
  "mutatePrimitive X C p angleEps g =
     (case (case prim_type p of
              Box \<Rightarrow>
                (let (k, g1) = uniform_int 0 2 g;
                     planePairIdx = nat (k * 2)
                 in if length (prim_ms p) \<le> planePairIdx then None
                    else
                      (case getParallelPlane X C (prim_ms p ! planePairIdx) (prim_ms p) angleEps
                              (minDistanceBetweenParallelPlanes C) g1 of
                         (None, g2) \<Rightarrow> Some (p, g2)
                       | (Some newPlane, g2) \<Rightarrow>
                           if length (prim_ms p) \<le> planePairIdx + 1 then None
                           else Some (createBoxPrimitive (polytope_empty X)
                                        ((prim_ms p)[planePairIdx + 1 := newPlane]), g2)))
            | Cylinder \<Rightarrow>
                (let (numPlanesToSelect, g1) = uniform_int 0 2 g
                 in if prim_ms p = [] then None
                    else
                      (let cyl = prim_ms p ! 0;
                           (planes, g2) = selectCapPlanes X C cyl angleEps
                                            (nat numPlanesToSelect) [] g1
                       in map_option (\<lambda>q. (q, g2)) (createCylinderPrimitive cyl planes)))
            | _ \<Rightarrow> Some (p, g)) of
        None \<Rightarrow> None
      | Some (primitive, g3) \<Rightarrow>
          (let (c, g4) = bernoulli 0.5 g3
           in Some (primitive\<lparr>cutout := c\<rparr>, g4)))"

text \<open>
  The loop of \<^verbatim>\<open>create\<close> fills the set until it has \<open>setSize\<close> members and drops
  every primitive None. It need not end: no result is \<open>None\<close>.
\<close>

partial_function (option) create_fill ::
  "externals \<Rightarrow> PrimitiveSetCreator \<Rightarrow> int \<Rightarrow> PrimitiveSet \<Rightarrow> rnd_engine \<Rightarrow>
   (PrimitiveSet \<times> rnd_engine) option" where
  "create_fill X C setSize ps g =
     (if int (length ps) < setSize then
        (case createPrimitive X C g of
           None \<Rightarrow> None
         | Some (p, g1) \<Rightarrow>
             create_fill X C setSize (if \<not> isNone p then ps @ [p] else ps) g1)
      else Some (ps, g))"

definition create_set ::
  "externals \<Rightarrow> PrimitiveSetCreator \<Rightarrow> rnd_engine \<Rightarrow> (PrimitiveSet \<times> rnd_engine) option" where
  "create_set X C g =
     (let (setSize, g1) = uniform_int 1 (maxPrimitiveSetSize C) g
      in create_fill X C setSize [] g1)"


definition getRandomPrimitiveIdx :: "PrimitiveSet \<Rightarrow> rnd_engine \<Rightarrow> int \<times> rnd_engine" where
  "getRandomPrimitiveIdx ps g = uniform_int 0 (int (length ps) - 1) g"

text \<open>
  One round of the \<^verbatim>\<open>switch\<close> in \<^verbatim>\<open>mutate\<close>. \<open>None\<close> is an index beyond the set, or
  no result of the creation called.
\<close>

definition mutate_round ::
  "externals \<Rightarrow> PrimitiveSetCreator \<Rightarrow> MutationType \<Rightarrow> PrimitiveSet \<Rightarrow> rnd_engine \<Rightarrow>
   (PrimitiveSet \<times> rnd_engine) option" where
  "mutate_round X C mt newPS g =
     (case mt of
        REPLACE \<Rightarrow>
          (let (idx, g1) = getRandomPrimitiveIdx newPS g
           in if idx \<noteq> -1 then
                (case createPrimitive X C g1 of
                   None \<Rightarrow> None
                 | Some (newP, g2) \<Rightarrow>
                     if 0 \<le> idx \<and> idx < int (length newPS)
                     then Some (newPS[nat idx := (if isNone newP then newPS ! nat idx else newP)], g2)
                     else None)
              else Some (newPS, g1))
      | MODIFY \<Rightarrow>
          (let (idx, g1) = getRandomPrimitiveIdx newPS g
           in if 0 \<le> idx \<and> idx < int (length newPS) then
                (case mutatePrimitive X C (newPS ! nat idx) (angleEpsilon C) g1 of
                   None \<Rightarrow> None
                 | Some (newP, g2) \<Rightarrow>
                     Some (newPS[nat idx := (if isNone newP then newPS ! nat idx else newP)], g2))
              else None)
      | REMOVE \<Rightarrow> Some (newPS, g)
      | ADD \<Rightarrow>
          (case createPrimitive X C g of
             None \<Rightarrow> None
           | Some (newP, g1) \<Rightarrow> Some ((if \<not> isNone newP then newPS @ [newP] else newPS), g1))
      | _ \<Rightarrow> Some (newPS, g))"

text \<open>
  The \<^verbatim>\<open>for\<close> loop of \<^verbatim>\<open>mutate\<close>: its bound is drawn anew from
  \<open>[1, maxMutationIterations]\<close> before every round.
\<close>

function mutate_loop ::
  "externals \<Rightarrow> PrimitiveSetCreator \<Rightarrow> MutationType \<Rightarrow> int \<Rightarrow> PrimitiveSet \<Rightarrow> rnd_engine \<Rightarrow>
   (PrimitiveSet \<times> rnd_engine) option" where
  "mutate_loop X C mt i newPS g =
     (let (bound, g1) = uniform_int 1 (maxMutationIterations C) g
      in if i < bound then
           (case mutate_round X C mt newPS g1 of
              None \<Rightarrow> None
            | Some (newPS', g2) \<Rightarrow> mutate_loop X C mt (i + 1) newPS' g2)
         else Some (newPS, g1))"
  by pat_completeness auto
termination
proof (relation "measure (\<lambda>(X, C, mt, i, newPS, g). nat (max 1 (maxMutationIterations C) - i))")
  show "wf (measure (\<lambda>(X, C, mt, i, newPS, g). nat (max 1 (maxMutationIterations C) - i)))"
    by simp
next
  fix X :: externals and C :: PrimitiveSetCreator and mt :: MutationType and i :: int
    and newPS :: PrimitiveSet and g :: rnd_engine and x and bound g1 x2 xa newPS' g2
  assume draw: "x = uniform_int 1 (maxMutationIterations C) g" "(bound, g1) = x" and lt: "i < bound"
  have "bound \<le> max 1 (maxMutationIterations C)"
  proof (cases "maxMutationIterations C < 1")
    case True
    with draw show ?thesis by (simp add: uniform_int_def)
  next
    case False
    then have "1 + int (shd g) mod maxMutationIterations C \<le> maxMutationIterations C"
      using pos_mod_bound [of "maxMutationIterations C" "int (shd g)"] by linarith
    moreover from False draw have "bound = 1 + int (shd g) mod maxMutationIterations C"
      by (auto simp add: uniform_int_def)
    ultimately show ?thesis by simp
  qed
  with lt show "((X, C, mt, i + 1, newPS', g2), (X, C, mt, i, newPS, g))
        \<in> measure (\<lambda>(X, C, mt, i, newPS, g). nat (max 1 (maxMutationIterations C) - i))"
    by simp
qed

text \<open>
  \<^verbatim>\<open>mutate\<close> after the mutation kind \<open>mt\<close> has been drawn.
\<close>

definition mutate_kind ::
  "externals \<Rightarrow> PrimitiveSetCreator \<Rightarrow> MutationType \<Rightarrow> PrimitiveSet \<Rightarrow> rnd_engine \<Rightarrow>
   (PrimitiveSet \<times> rnd_engine) option" where
  "mutate_kind X C mt ps g =
     (if mt = NEW \<or> ps = [] then create_set X C g
      else mutate_loop X C mt 0 ps g)"

text \<open>
  The distribution \<^verbatim>\<open>dd\<close> of the mutation kinds is a function-local \<^verbatim>\<open>static\<close> of
  \<^verbatim>\<open>mutate\<close>: one object for the whole process, constructed when \<^verbatim>\<open>mutate\<close> is
  called for the first time, from the \<^verbatim>\<open>mutationDistribution\<close> of the creator that
  makes this call, and read by every later call of every creator. Its state is \<open>None\<close>
  before the first call and the weights it was constructed from afterwards; \<^verbatim>\<open>mutate\<close>
  takes the state and returns it. The other \<^verbatim>\<open>static\<close> distributions of the creators
  are default-constructed and get their parameters at every draw: they carry nothing
  from one call to the next.
\<close>

type_synonym static_dd = "real list option"

definition staticDistribution :: "static_dd \<Rightarrow> PrimitiveSetCreator \<Rightarrow> real list" where
  "staticDistribution shared C =
     (case shared of None \<Rightarrow> mutationDistribution C | Some ws \<Rightarrow> ws)"

definition PrimitiveSetCreator_mutate ::
  "externals \<Rightarrow> static_dd \<Rightarrow> PrimitiveSetCreator \<Rightarrow> PrimitiveSet \<Rightarrow>
   (PrimitiveSet \<times> PrimitiveSetCreator \<times> static_dd) option" where
  "PrimitiveSetCreator_mutate X shared C ps =
     (let dd = staticDistribution shared C;
          (k, g1) = discrete_draw dd (prim_rndEngine C);
          mt = mutationTypeOfInt k
      in map_option (\<lambda>(ps', g). (ps', C\<lparr>prim_rndEngine := g\<rparr>, Some dd))
           (mutate_kind X C mt ps g1))"

section \<open>Primitive set ranker\<close>

record PrimitiveSetRanker =
  rk_pc :: PointCloud
  rk_ms :: ManifoldSet
  staticPrimitives :: PrimitiveSet
  distanceEpsilon :: real
  bestRank :: real
  maxPrimitiveSetSize_rk :: int
  bestPrimitives :: PrimitiveSet

definition PrimitiveSetRanker_new ::
  "PointCloud \<Rightarrow> ManifoldSet \<Rightarrow> PrimitiveSet \<Rightarrow> real \<Rightarrow> int \<Rightarrow> PrimitiveSetRanker" where
  "PrimitiveSetRanker_new pc mset staticPrims distanceEps maxSetSize =
     \<lparr>rk_pc = pc, rk_ms = mset, staticPrimitives = staticPrims, distanceEpsilon = distanceEps,
      bestRank = - DBL_MAX, maxPrimitiveSetSize_rk = maxSetSize, bestPrimitives = []\<rparr>"

text \<open>
  The signed distance and gradient of an implicit function at a point
  (\<^verbatim>\<open>signedDistanceAndGradient\<close>) is the parameter \<open>sdg\<close>. The inner loop of the
  geometry score runs over the primitives of the set; its state is \<^verbatim>\<open>min_d\<close> and
  \<^verbatim>\<open>min_normal\<close>, the latter \<open>None\<close> while it is uninitialised. The result is \<open>None\<close>
  when a primitive has no implicit function to call.
\<close>

fun closestPrimitive ::
  "(ImplicitFunction \<Rightarrow> vec3 \<Rightarrow> real \<times> vec3) \<Rightarrow> vec3 \<Rightarrow> PrimitiveSet \<Rightarrow> real \<times> vec3 option \<Rightarrow>
   (real \<times> vec3 option) option" where
  "closestPrimitive sdg point [] st = Some st"
| "closestPrimitive sdg point (p # ps) (min_d, min_normal) =
     (case imFunc p of
        None \<Rightarrow> None
      | Some f \<Rightarrow>
          (let dg = sdg f point;
               d = \<bar>fst dg\<bar>;
               g = snd dg
           in if min_d > d
              then closestPrimitive sdg point ps (d, Some (normalized g))
              else closestPrimitive sdg point ps (min_d, min_normal)))"

text \<open>
  Whether a point of the cloud counts as valid. The conjunction does not read
  \<^verbatim>\<open>min_normal\<close> unless \<open>min_d < delta\<close>.
\<close>

definition pointValid ::
  "(ImplicitFunction \<Rightarrow> vec3 \<Rightarrow> real \<times> vec3) \<Rightarrow> PrimitiveSet \<Rightarrow> vec3 \<times> vec3 \<Rightarrow> bool option" where
  "pointValid sdg ps row =
     (let delta = 0.0001; point = fst row; n = snd row
      in case closestPrimitive sdg point ps (DBL_MAX, None) of
           None \<Rightarrow> None
         | Some (min_d, min_normal) \<Rightarrow>
             Some (min_d < delta \<and> (case min_normal of None \<Rightarrow> False
                                     | Some mn \<Rightarrow> dot n mn > 0.9)))"

text \<open>The outer loop: the state is \<^verbatim>\<open>validPoints\<close> and \<^verbatim>\<open>checkedPoints\<close>.\<close>

fun countValidPoints ::
  "(ImplicitFunction \<Rightarrow> vec3 \<Rightarrow> real \<times> vec3) \<Rightarrow> PrimitiveSet \<Rightarrow> PointCloud \<Rightarrow> int \<times> int \<Rightarrow>
   (int \<times> int) option" where
  "countValidPoints sdg ps [] st = Some st"
| "countValidPoints sdg ps (row # rows) (validPoints, checkedPoints) =
     (case pointValid sdg ps row of
        None \<Rightarrow> None
      | Some v \<Rightarrow>
          countValidPoints sdg ps rows
            ((if v then validPoints + 1 else validPoints), checkedPoints + 1))"

text \<open>
  The area score of \<^verbatim>\<open>rank2\<close> meshes each box and rasterises the points on its
  triangles with code from outside the sources: \<open>boxAreas\<close> gives, for a box with six
  planes, its point area and its surface area, or \<open>None\<close> when its mesh is empty or
  has not 12 triangles.
\<close>

fun summedAreas ::
  "(Primitive \<Rightarrow> (real \<times> real) option) \<Rightarrow> PrimitiveSet \<Rightarrow> real \<times> real \<Rightarrow> real \<times> real" where
  "summedAreas boxAreas [] st = st"
| "summedAreas boxAreas (p # ps) (summed_area, summed_point_area) =
     (if prim_type p \<noteq> Box then summedAreas boxAreas ps (summed_area, summed_point_area)
      else if length (prim_ms p) \<noteq> 6 then summedAreas boxAreas ps (summed_area, summed_point_area)
      else (case boxAreas p of
              None \<Rightarrow> summedAreas boxAreas ps (summed_area, summed_point_area)
            | Some (per_primitive_point_area, per_primitive_area) \<Rightarrow>
                summedAreas boxAreas ps
                  (summed_area + per_primitive_area, summed_point_area + per_primitive_point_area)))"

text \<open>
  \<^verbatim>\<open>rank2\<close> returns the rank and the ranker with its best set updated. The flag
  \<^verbatim>\<open>ignoreStaticPrimitives\<close> is a parameter of \<^verbatim>\<open>rank2\<close> that its body does not read.
\<close>

definition rank2 ::
  "(ImplicitFunction \<Rightarrow> vec3 \<Rightarrow> real \<times> vec3) \<Rightarrow> (Primitive \<Rightarrow> (real \<times> real) option) \<Rightarrow>
   PrimitiveSetRanker \<Rightarrow> PrimitiveSet \<Rightarrow> bool \<Rightarrow> (real \<times> PrimitiveSetRanker) option" where
  "rank2 sdg boxAreas R ps ignoreStaticPrimitives =
     (if ps = [] then Some (- DBL_MAX, R)
      else
        (let (summed_area, summed_point_area) = summedAreas boxAreas ps (0, 0)
         in case countValidPoints sdg ps (rk_pc R) (0, 0) of
              None \<Rightarrow> None
            | Some (validPoints, checkedPoints) \<Rightarrow>
                (let s = 0;
                     size_score = real (length ps) / real_of_int (maxPrimitiveSetSize_rk R);
                     g = 1;
                     geo_score = real_of_int validPoints / real_of_int checkedPoints;
                     a = 1;
                     area_score = summed_point_area / summed_area;
                     r = a * area_score + g * geo_score - s * size_score
                 in Some (r, (if bestRank R < r
                              then R\<lparr>bestRank := r, bestPrimitives := ps\<rparr> else R)))))"

definition PrimitiveSetRanker_rank ::
  "(ImplicitFunction \<Rightarrow> vec3 \<Rightarrow> real \<times> vec3) \<Rightarrow> (Primitive \<Rightarrow> (real \<times> real) option) \<Rightarrow>
   PrimitiveSetRanker \<Rightarrow> PrimitiveSet \<Rightarrow> bool \<Rightarrow> (real \<times> PrimitiveSetRanker) option" where
  "PrimitiveSetRanker_rank sdg boxAreas R ps ignoreStaticPrimitives =
     rank2 sdg boxAreas R ps ignoreStaticPrimitives"

text \<open>
  The geometry score in the words of the specification: over the given implicit
  functions, \<open>d\<close> is the least absolute signed distance at the point and \<open>g\<close> the
  normalised gradient of the first function attaining it; the point is valid when
  \<open>d < eps\<close> and \<open>\<nu> \<cdot> g > 0.9\<close>. The functions are those of the set, with those of
  the static primitives appended unless they are ignored.
\<close>

definition spec_point_valid ::
  "(ImplicitFunction \<Rightarrow> vec3 \<Rightarrow> real \<times> vec3) \<Rightarrow> real \<Rightarrow> ImplicitFunction list \<Rightarrow> vec3 \<times> vec3 \<Rightarrow> bool" where
  "spec_point_valid sdg eps fs row =
     (case find (\<lambda>f. \<forall>f'\<in>set fs. \<bar>fst (sdg f (fst row))\<bar> \<le> \<bar>fst (sdg f' (fst row))\<bar>) fs of
        None \<Rightarrow> False
      | Some f \<Rightarrow>
          \<bar>fst (sdg f (fst row))\<bar> < eps
        \<and> dot (snd row) (normalized (snd (sdg f (fst row)))) > 0.9)"

definition spec_functions :: "PrimitiveSetRanker \<Rightarrow> PrimitiveSet \<Rightarrow> bool \<Rightarrow> ImplicitFunction list" where
  "spec_functions R ps ignoreStaticPrimitives =
     List.map_filter imFunc (if ignoreStaticPrimitives then ps else ps @ staticPrimitives R)"

definition spec_valid_points ::
  "(ImplicitFunction \<Rightarrow> vec3 \<Rightarrow> real \<times> vec3) \<Rightarrow> PrimitiveSetRanker \<Rightarrow> PrimitiveSet \<Rightarrow> bool \<Rightarrow> nat" where
  "spec_valid_points sdg R ps ignoreStaticPrimitives =
     length (filter (spec_point_valid sdg (distanceEpsilon R)
                       (spec_functions R ps ignoreStaticPrimitives)) (rk_pc R))"

section \<open>Properties of the CSG node creator\<close>

lemma uniform_int_range:
  "lo \<le> hi \<Longrightarrow> lo \<le> fst (uniform_int lo hi g) \<and> fst (uniform_int lo hi g) \<le> hi"
  by (simp add: uniform_int_def) (smt (verit) pos_mod_bound pos_mod_sign)

lemma fold_max_le: "fold max xs (a::nat) \<le> b \<longleftrightarrow> a \<le> b \<and> (\<forall>x\<in>set xs. x \<le> b)"
  by (induction xs arbitrary: a) auto

lemma depth_Operation_le:
  "depth (Operation ty nm cs) \<le> b \<longleftrightarrow> (\<forall>c\<in>set cs. Suc (depth c) \<le> b)"
  by (simp add: fold_max_le)

lemma depth_child_less: "c \<in> set cs \<Longrightarrow> depth c < depth (Operation ty nm cs)"
  using depth_Operation_le [of ty nm cs "depth (Operation ty nm cs)"] by auto

lemma assignAt_depth:
  "assignAt t i s = Some t' \<Longrightarrow> depth t' \<le> depth t + depth s"
  "assignAt_childs cs i s = Some cs' \<Longrightarrow> (\<forall>c\<in>set cs. depth c \<le> d) \<Longrightarrow>
     (\<forall>c'\<in>set cs'. depth c' \<le> d + depth s)"
proof (induction t i s and cs i s arbitrary: t' and cs' d rule: assignAt_assignAt_childs.induct)
  case (1 t s)
  then show ?case by simp
next
  case (2 f i s)
  then show ?case by simp
next
  case (3 ty nm cs i s)
  then obtain cs' where a: "assignAt_childs cs i s = Some cs'" and t': "t' = Operation ty nm cs'"
    by (auto split: option.splits)
  show ?case
  proof (cases "cs = []")
    case True
    with a show ?thesis by simp
  next
    case False
    then obtain c0 where "c0 \<in> set cs" by (cases cs) auto
    then have pos: "0 < depth (Operation ty nm cs)" using depth_child_less by fastforce
    have "\<forall>c\<in>set cs. depth c \<le> depth (Operation ty nm cs) - 1"
      using depth_child_less [of _ cs ty nm] by fastforce
    from "3.IH" [OF a this] have "\<forall>c'\<in>set cs'. depth c' \<le> depth (Operation ty nm cs) - 1 + depth s" .
    then have "\<forall>c'\<in>set cs'. Suc (depth c') \<le> depth (Operation ty nm cs) + depth s"
      using pos by fastforce
    then show ?thesis unfolding t' depth_Operation_le .
  qed
next
  case (4 i s)
  then show ?case by simp
next
  case (5 c cs i s)
  show ?case
  proof (cases "i < numNodes c")
    case True
    with "5.prems" obtain c' where a: "assignAt c i s = Some c'" and cs': "cs' = c' # cs"
      by (auto split: option.splits)
    from "5.IH"(1) [OF True a] "5.prems"(2) show ?thesis unfolding cs' by fastforce
  next
    case False
    with "5.prems" obtain r where a: "assignAt_childs cs (i - numNodes c) s = Some r" and cs': "cs' = c # r"
      by (auto split: option.splits)
    from "5.IH"(2) [OF False a, of d] "5.prems"(2) show ?thesis unfolding cs' by fastforce
  qed
qed

lemma assignAt_total:
  "i < numNodes t \<Longrightarrow> \<exists>t'. assignAt t i s = Some t'"
  "i < sum_list (map numNodes cs) \<Longrightarrow> \<exists>cs'. assignAt_childs cs i s = Some cs'"
proof (induction t i s and cs i s rule: assignAt_assignAt_childs.induct)
  case (5 c cs i s)
  show ?case
  proof (cases "i < numNodes c")
    case True
    with "5.IH"(1) show ?thesis by auto
  next
    case False
    with "5.prems" have "i - numNodes c < sum_list (map numNodes cs)" by simp
    with "5.IH"(2) False show ?thesis by auto
  qed
qed auto

lemma numChildsFor_op: "1 \<le> i \<Longrightarrow> i \<le> 3 \<Longrightarrow> numChildsFor (operationOfInt i) = 2"
proof -
  assume "1 \<le> i" "i \<le> 3"
  then consider "i = 1" | "i = 2" | "i = 3" by linarith
  then show ?thesis
    by cases (simp_all add: numChildsFor_def operationOfInt_def clamp_def INT_MAX_def)
qed

lemma create_childs_depth:
  "create_childs fs sp m c k g = (cs, g') \<Longrightarrow>
     length cs = k \<and> (\<forall>x\<in>set cs. int (depth x) \<le> max 0 (m - c))"
proof (induction fs sp m c k g arbitrary: cs g' rule: create_childs.induct)
  case (1 fs sp m c g)
  then show ?case by simp
next
  case (2 fs sp m c k g)
  obtain b g1 where b: "bernoulli sp g = (b, g1)" by (cases "bernoulli sp g")
  show ?case
  proof (cases "b \<and> c < m")
    case True
    obtain op g2 where op: "uniform_int 1 3 g1 = (op, g2)" by (cases "uniform_int 1 3 g1")
    obtain ds g3 where ds: "create_childs fs sp m (c + 1) (numChildsFor (operationOfInt op)) g2 = (ds, g3)"
      by (cases "create_childs fs sp m (c + 1) (numChildsFor (operationOfInt op)) g2")
    obtain rest g4 where rest: "create_childs fs sp m c k g3 = (rest, g4)"
      by (cases "create_childs fs sp m c k g3")
    from "2.prems" b True op ds rest
    have cs: "cs = addChilds (createOperation (operationOfInt op)) ds # rest"
      by simp
    have ih1: "length ds = numChildsFor (operationOfInt op) \<and> (\<forall>x\<in>set ds. int (depth x) \<le> max 0 (m - (c + 1)))"
      using "2.IH"(1) [OF b [symmetric] refl True op [symmetric] refl refl ds] .
    have ih2: "length rest = k \<and> (\<forall>x\<in>set rest. int (depth x) \<le> max 0 (m - c))"
      using "2.IH"(2) [OF b [symmetric] refl True op [symmetric] refl refl ds [symmetric] refl rest] .
    have "\<forall>x\<in>set ds. Suc (depth x) \<le> nat (m - c)"
      using ih1 True by fastforce
    then have "depth (addChilds (createOperation (operationOfInt op)) ds) \<le> nat (m - c)"
      by (simp add: createOperation_def fold_max_le)
    then show ?thesis using ih2 cs True by auto
  next
    case False
    obtain fi g2 where fi: "uniform_int 0 (int (length fs) - 1) g1 = (fi, g2)"
      by (cases "uniform_int 0 (int (length fs) - 1) g1")
    obtain rest g3 where rest: "create_childs fs sp m c k g2 = (rest, g3)"
      by (cases "create_childs fs sp m c k g2")
    from "2.prems" b False fi rest have cs: "cs = Geometry (fs ! nat fi) # rest"
      by auto
    have ih: "length rest = k \<and> (\<forall>x\<in>set rest. int (depth x) \<le> max 0 (m - c))"
      using "2.IH"(3) [OF b [symmetric] refl False fi [symmetric] refl rest] .
    then show ?thesis using cs by auto
  qed
qed

lemma create_node_depth:
  "0 \<le> m \<Longrightarrow> int (depth (fst (create_node fs sp m g))) \<le> m"
proof (cases "m = 0")
  case True
  then show ?thesis by (simp add: create_node_def split: prod.splits)
next
  case False
  assume "0 \<le> m"
  with False have m: "1 \<le> m" by simp
  obtain op g1 where op: "uniform_int 1 3 g = (op, g1)" by (cases "uniform_int 1 3 g")
  obtain cs g2 where cs: "create_childs fs sp m 1 (numChildsFor (operationOfInt op)) g1 = (cs, g2)"
    by (cases "create_childs fs sp m 1 (numChildsFor (operationOfInt op)) g1")
  from create_childs_depth [OF cs] m have "\<forall>x\<in>set cs. Suc (depth x) \<le> nat m"
    by fastforce
  then have "depth (addChilds (createOperation (operationOfInt op)) cs) \<le> nat m"
    by (simp add: createOperation_def fold_max_le)
  with False op cs m show ?thesis by (simp add: create_node_def)
qed



lemma assignPtrAt_total:
  "0 \<le> i \<Longrightarrow> i \<le> int (numNodes t) - 1 \<Longrightarrow> \<exists>t'. assignPtrAt t i s = Some t'"
  using assignAt_total(1) [of "nat i" t s] by (simp add: assignPtrAt_def)

lemma assignPtrAt_depth:
  "assignPtrAt t i s = Some t' \<Longrightarrow> depth t' \<le> depth t + depth s"
  using assignAt_depth(1) [of t "nat i" s t'] by (simp add: assignPtrAt_def split: if_splits)

lemma numNodes_pos: "0 < numNodes t"
  by (cases t) simp_all

lemma CSGNodeCreator_create_depth:
  assumes "node_functions C \<noteq> []" and "0 \<le> m"
  shows "\<exists>t C'. CSGNodeCreator_create C m = Some (t, C') \<and> int (depth t) \<le> m
           \<and> maxTreeDepth C' = maxTreeDepth C"
proof -
  obtain t g where tg: "create_node (node_functions C) (subtreeProb C) m (rndEngine C) = (t, g)"
    by (cases "create_node (node_functions C) (subtreeProb C) m (rndEngine C)")
  from create_node_depth [OF assms(2), of "node_functions C" "subtreeProb C" "rndEngine C"] tg
  have "int (depth t) \<le> m" by simp
  with assms(1) tg show ?thesis by (simp add: CSGNodeCreator_create_def)
qed

text \<open>
  Claim C6, as amended. When the creator has at least one function, \<open>max_depth\<close> is not
  negative and the tree to mutate is itself no deeper than \<open>max_depth\<close>, the mutation
  returns a tree, and that tree is no deeper than \<open>max_depth\<close>: on the create-new branch
  and on the replace-subtree branch, whose subtree is created with the budget
  \<open>max_depth - depth tree\<close>.
\<close>

theorem mutate_depth_within_budget:
  assumes fs: "node_functions C \<noteq> []"
    and nonneg: "0 \<le> maxTreeDepth C"
    and fits: "int (depth t) \<le> maxTreeDepth C"
  shows "\<exists>t' C'. CSGNodeCreator_mutate C t = Some (t', C') \<and> int (depth t') \<le> maxTreeDepth C"
proof -
  obtain b g1 where b: "bernoulli (createNewRandomProb C) (rndEngine C) = (b, g1)"
    by (cases "bernoulli (createNewRandomProb C) (rndEngine C)")
  show ?thesis
  proof (cases b)
    case True
    from CSGNodeCreator_create_depth [of "C\<lparr>rndEngine := g1\<rparr>" "maxTreeDepth C"] fs nonneg
    obtain t' C' where "CSGNodeCreator_create (C\<lparr>rndEngine := g1\<rparr>) (maxTreeDepth C) = Some (t', C')"
      and "int (depth t') \<le> maxTreeDepth C" by auto
    with b True show ?thesis by (simp add: CSGNodeCreator_mutate_def)
  next
    case False
    obtain i g2 where i: "uniform_int 0 (int (numNodes t) - 1) g1 = (i, g2)"
      by (cases "uniform_int 0 (int (numNodes t) - 1) g1")
    have "0 \<le> int (numNodes t) - 1" using numNodes_pos [of t] by simp
    from uniform_int_range [OF this, of g1] i
    have range: "0 \<le> i" "i \<le> int (numNodes t) - 1" by simp_all
    let ?budget = "maxTreeDepth C - int (depth t)"
    from CSGNodeCreator_create_depth [of "C\<lparr>rndEngine := g2\<rparr>" ?budget] fs fits
    obtain sub C' where sub: "CSGNodeCreator_create (C\<lparr>rndEngine := g2\<rparr>) ?budget = Some (sub, C')"
      and dsub: "int (depth sub) \<le> ?budget" by auto
    from assignPtrAt_total [OF range, of sub]
    obtain t' where t': "assignPtrAt t i sub = Some t'" by blast
    from assignPtrAt_depth [OF t'] dsub have "int (depth t') \<le> maxTreeDepth C" by linarith
    with b False i sub t' show ?thesis by (simp add: CSGNodeCreator_mutate_def)
  qed
qed

text \<open>
  The hypotheses of the bound hold for a creator with two functions and \<open>max_depth = 2\<close>
  mutating a union of two leaves.
\<close>

theorem mutate_depth_within_budget_witness:
  "\<exists>t' C'. CSGNodeCreator_mutate
      \<lparr>node_functions = [0::nat, 1], createNewRandomProb = 1/2, subtreeProb = 7/10,
       maxTreeDepth = 2, rndEngine = siterate Suc 1,
       node_connectionGraph = emptyGraph\<rparr>
      (Operation Union_op [] [Geometry 0, Geometry 1]) = Some (t', C') \<and> int (depth t') \<le> 2"
  using mutate_depth_within_budget
    [of "\<lparr>node_functions = [0::nat, 1], createNewRandomProb = 1/2, subtreeProb = 7/10,
       maxTreeDepth = 2, rndEngine = siterate Suc 1,
       node_connectionGraph = emptyGraph\<rparr>" "Operation Union_op [] [Geometry 0, Geometry 1]"]
  by simp

text \<open>
  Claim C6 as stated fails for a tree already deeper than \<open>max_depth\<close>. With
  \<open>max_depth = 1\<close> and a tree of depth 2, the budget is \<open>-1\<close>; \<^verbatim>\<open>create(-1)\<close> is
  not the leaf of \<open>maxDepth == 0\<close> but an operator over two leaves, and it replaces a
  leaf at level 2: the mutated tree has depth 3.
\<close>

theorem mutate_depth_counterexample:
  "map_option (depth \<circ> fst) (CSGNodeCreator_mutate
      \<lparr>node_functions = [0::nat, 1], createNewRandomProb = 1/2, subtreeProb = 7/10,
       maxTreeDepth = 1, rndEngine = siterate Suc 1,
       node_connectionGraph = emptyGraph\<rparr>
      (Operation Union_op []
         [Operation Union_op [] [Geometry 0, Geometry 1], Geometry 0])) = Some 3"
  by (simp add: CSGNodeCreator_mutate_def CSGNodeCreator_create_def create_node_def
      bernoulli_def uniform_int_def assignPtrAt_def numChildsFor_def operationOfInt_def
      createOperation_def clamp_def INT_MAX_def numeral_2_eq_2)

text \<open>
  Claim C2 says that the second result of the crossover falls back to the second input
  when the swapped second tree is too deep. The code returns the first input there.
  With \<open>max_depth = 1\<close>, the root of \<open>Union(0, 0)\<close> is swapped with the first leaf of
  \<open>Union(1, 1)\<close>; the swapped second tree \<open>Union(Union(0, 0), 1)\<close> has depth 2, and
  the second result is \<open>Union(0, 0)\<close>, the first input, not \<open>Union(1, 1)\<close>.
\<close>

theorem crossover_second_fallback_is_first_input:
  "map_option fst (CSGNodeCreator_crossover
      \<lparr>node_functions = [0::nat, 1], createNewRandomProb = 1/2, subtreeProb = 7/10,
       maxTreeDepth = 1, rndEngine = siterate Suc 0,
       node_connectionGraph = emptyGraph\<rparr>
      (Operation Union_op [] [Geometry 0, Geometry 0])
      (Operation Union_op [] [Geometry 1, Geometry 1]))
   = Some [Geometry 1, Operation Union_op [] [Geometry 0, Geometry 0]]"
  by (simp add: CSGNodeCreator_crossover_def uniform_int_def crossover_at_def nodePtrAt_def
      assignPtrAt_def)



section \<open>Properties of the clique orchestrator\<close>






section \<open>Properties of the pipeline driver\<close>

lemma load_trace_no_optimizer:
  "Optimizer name \<notin> set (snd (PipelineRunner_load E out pp []))"
  "Decompose \<notin> set (snd (PipelineRunner_load E out pp []))"
  by (simp_all add: PipelineRunner_load_def Let_def split: sum.splits)

text \<open>
  Claim C7. When the loaded input tree is a Noop operator, \<^verbatim>\<open>run\<close> returns exit code 1
  and its trace is the trace of loading: no optimizer and no decomposition is invoked.
  When reading the tree file fails, the loaded node is the Noop node, so \<^verbatim>\<open>run\<close>
  returns 1 after the attempt to load and nothing else.
\<close>

theorem run_noop_exit_code:
  "(operationType (fst (PipelineRunner_load E out pp [])) = Noop \<longrightarrow>
      fst (PipelineRunner_run E out pp) = 1
    \<and> snd (PipelineRunner_run E out pp) = snd (PipelineRunner_load E out pp [])
    \<and> (\<forall>name. Optimizer name \<notin> set (snd (PipelineRunner_run E out pp)))
    \<and> Decompose \<notin> set (snd (PipelineRunner_run E out pp)))
 \<and> ((\<exists>ex. fromJSONFile E (tree_file pp) = Inl ex) \<longrightarrow>
      PipelineRunner_load E out pp [] = (opNo, [LoadTree (tree_file pp)])
    \<and> operationType (fst (PipelineRunner_load E out pp [])) = Noop
    \<and> PipelineRunner_run E out pp = (1, [LoadTree (tree_file pp)]))"
proof -
  have a: "operationType (fst (PipelineRunner_load E out pp [])) = Noop \<Longrightarrow>
      PipelineRunner_run E out pp = (1, snd (PipelineRunner_load E out pp []))"
    by (cases "PipelineRunner_load E out pp []") (simp add: PipelineRunner_run_def)
  have b: "fromJSONFile E (tree_file pp) = Inl ex \<Longrightarrow>
      PipelineRunner_load E out pp [] = (opNo, [LoadTree (tree_file pp)])" for ex
    by (simp add: PipelineRunner_load_def)
  have c: "operationType (opNo :: 'a CSGNode) = Noop" by (simp add: opNo_def)
  show ?thesis using a b c load_trace_no_optimizer [where E = E and out = out and pp = pp]
    by (auto simp del: split_paired_All split_paired_Ex)
qed

text \<open>A driver whose tree reader throws: exit code 1, and only the load was attempted.\<close>

theorem run_noop_exit_code_witness:
  "PipelineRunner_run
     \<lparr>fromJSONFile = (\<lambda>f. Inl (Exception ''no such file'')),
      to_binary_tree = Inr,
      filter_name_duplicates = id,
      remove_redundancies = (\<lambda>n g pc. n),
      cit_empty = (\<lambda>s. True),
      cit_initial = (),
      cit_generate = (\<lambda>n ps g. ()),
      cit_in_out = (\<lambda>s. ()),
      optimize_with_decomposition = (\<lambda>n g b pc c f tr. f n [] tr),
      optimize_with_ga = (\<lambda>n ps. Inr (n :: nat CSGNode)),
      optimize_pi_set_cover = (\<lambda>n ps. Inr n),
      optimize_with_python = (\<lambda>n m. Inr n),
      transform_to_diffs = Inr\<rparr>
     ''out''
     \<lparr>optimizer = ''GA'', tree_file = ''tree.json'', sampling_grid_size = 1 / 10,
      save_meshes = False, use_decomposition = True, use_redundancy_removal = True,
      use_cit_points_for_decomposition = False,
      use_cit_points_for_redundancy_removal = False\<rparr>
   = (1, [LoadTree ''tree.json''])"
  using run_noop_exit_code
    [of "\<lparr>fromJSONFile = (\<lambda>f. Inl (Exception ''no such file'')),
      to_binary_tree = Inr,
      filter_name_duplicates = id,
      remove_redundancies = (\<lambda>n g pc. n),
      cit_empty = (\<lambda>s. True),
      cit_initial = (),
      cit_generate = (\<lambda>n ps g. ()),
      cit_in_out = (\<lambda>s. ()),
      optimize_with_decomposition = (\<lambda>n g b pc c f tr. f n [] tr),
      optimize_with_ga = (\<lambda>n ps. Inr (n :: nat CSGNode)),
      optimize_pi_set_cover = (\<lambda>n ps. Inr n),
      optimize_with_python = (\<lambda>n m. Inr n),
      transform_to_diffs = Inr\<rparr>"
     "''out''"
     "\<lparr>optimizer = ''GA'', tree_file = ''tree.json'', sampling_grid_size = 1 / 10,
      save_meshes = False, use_decomposition = True, use_redundancy_removal = True,
      use_cit_points_for_decomposition = False,
      use_cit_points_for_redundancy_removal = False\<rparr>"]
  by simp

section \<open>Properties of the primitive construction\<close>

lemma dot_smul_left: "dot (smul k a) b = k * dot a b"
  by (cases a, cases b) (simp add: dot_def smul_def algebra_simps)

lemma dot_smul_right: "dot a (smul k b) = k * dot a b"
  by (cases a, cases b) (simp add: dot_def smul_def algebra_simps)

lemma dot_commute: "dot a b = dot b a"
  by (cases a, cases b) (simp add: dot_def algebra_simps)

lemma dot_vsub_swap: "dot (vsub a b) c = - dot (vsub b a) c"
  by (cases a, cases b, cases c) (simp add: dot_def vsub_def algebra_simps)

lemma orientPair_props:
  assumes "orientPair a b = (a', b')"
  shows "m_p a' = m_p a" "m_p b' = m_p b"
    "m_type a' = m_type a" "m_type b' = m_type b"
    "m_r a' = m_r a" "m_r b' = m_r b" "m_pc a' = m_pc a" "m_pc b' = m_pc b"
    "m_n a' = m_n a \<or> m_n a' = smul (-1) (m_n a)"
    "m_n b' = m_n b \<or> m_n b' = smul (-1) (m_n b)"
  using assms by (auto simp add: orientPair_def Let_def split: if_splits)

lemma orientPair_faces:
  assumes "orientPair a b = (a', b')"
  shows "normalsPointAway a' b'"
proof -
  let ?d1 = "dot (vsub (m_p b) (m_p a)) (m_n b) / dot (m_n a) (m_n b)"
  let ?d2 = "dot (vsub (m_p a) (m_p b)) (m_n a) / dot (m_n b) (m_n a)"
  have a': "a' = (if ?d1 \<ge> 0 then a\<lparr>m_n := smul (-1) (m_n a)\<rparr> else a)"
    and b': "b' = (if ?d2 \<ge> 0 then b\<lparr>m_n := smul (-1) (m_n b)\<rparr> else b)"
    using assms by (simp_all add: orientPair_def Let_def)
  have r1: "rayParameter a' b' = (if ?d1 \<ge> 0 then - ?d1 else ?d1)"
    unfolding a' b' rayParameter_def
    by (simp add: dot_smul_left dot_smul_right)
  have r2: "rayParameter b' a' = (if ?d2 \<ge> 0 then - ?d2 else ?d2)"
    unfolding a' b' rayParameter_def
    by (simp add: dot_smul_left dot_smul_right)
  show ?thesis unfolding normalsPointAway_def r1 r2 by simp
qed


lemma orientPairs_length: "length (orientPairs xs) = 2 * (length xs div 2)"
  by (induction xs rule: orientPairs.induct) (simp_all split: prod.splits)

lemma orientPairs_same:
  "i < length (orientPairs xs) \<Longrightarrow> samePlaneUpToSign (orientPairs xs ! i) (xs ! i)"
proof (induction xs arbitrary: i rule: orientPairs.induct)
  case (1 a b rest)
  obtain a' b' where ab: "orientPair a b = (a', b')" by (cases "orientPair a b")
  note props = orientPair_props [OF ab]
  show ?case
  proof (cases i)
    case 0
    with ab props show ?thesis by (simp add: samePlaneUpToSign_def)
  next
    case (Suc j)
    show ?thesis
    proof (cases j)
      case 0
      with Suc ab props show ?thesis by (simp add: samePlaneUpToSign_def)
    next
      case (Suc k)
      with \<open>i = Suc j\<close> "1.prems" ab have "k < length (orientPairs rest)" by simp
      from "1.IH" [OF ab [symmetric] this] Suc \<open>i = Suc j\<close> ab show ?thesis by simp
    qed
  qed
qed simp_all

lemma orientPairs_face:
  "2 * k + 1 < length xs \<Longrightarrow>
     normalsPointAway (orientPairs xs ! (2 * k)) (orientPairs xs ! (2 * k + 1))"
proof (induction xs arbitrary: k rule: orientPairs.induct)
  case (1 a b rest)
  obtain a' b' where ab: "orientPair a b = (a', b')" by (cases "orientPair a b")
  show ?case
  proof (cases k)
    case 0
    with ab orientPair_faces [OF ab] show ?thesis by simp
  next
    case (Suc j)
    with "1.prems" have "2 * j + 1 < length rest" by simp
    from "1.IH" [OF ab [symmetric] this] Suc ab show ?thesis by simp
  qed
qed simp_all

text \<open>
  Claim C4, as amended. \<^verbatim>\<open>createBoxPrimitive\<close> returns the primitive None whenever
  the plane set has not exactly 6 planes or the polytope of the oriented planes is
  empty. Otherwise it returns a Box whose manifold set holds the 6 given planes in
  their order, each with its normal kept or negated, such that in each pair
  \<open>(0,1)\<close>, \<open>(2,3)\<close>, \<open>(4,5)\<close> both normals point away from the partner plane, as
  the outward normals of the half-spaces of a polytope do; the pairs meant are those
  whose two given normals are not perpendicular, where the orientation test divides.
\<close>

theorem createBoxPrimitive_outward_pairs:
  "(length planes \<noteq> 6
      \<or> emptyPolytope (map m_p (orientPairs planes)) (map m_n (orientPairs planes))
    \<longrightarrow> createBoxPrimitive emptyPolytope planes = Primitive_None)
 \<and> (length planes = 6
      \<and> \<not> emptyPolytope (map m_p (orientPairs planes)) (map m_n (orientPairs planes))
    \<longrightarrow> (let B = createBoxPrimitive emptyPolytope planes in
           prim_type B = Box
         \<and> length (prim_ms B) = 6
         \<and> imFunc B = Some (IFPolytope (map m_p (prim_ms B)) (map m_n (prim_ms B)))
         \<and> (\<forall>i<6. samePlaneUpToSign (prim_ms B ! i) (planes ! i))
         \<and> (\<forall>k<3. dot (m_n (planes ! (2 * k))) (m_n (planes ! (2 * k + 1))) \<noteq> 0 \<longrightarrow>
                  normalsPointAway (prim_ms B ! (2 * k)) (prim_ms B ! (2 * k + 1)))))"
proof -
  have none: "length planes \<noteq> 6
      \<or> emptyPolytope (map m_p (orientPairs planes)) (map m_n (orientPairs planes))
    \<Longrightarrow> createBoxPrimitive emptyPolytope planes = Primitive_None"
    by (auto simp add: createBoxPrimitive_def Let_def)
  have box: "let B = createBoxPrimitive emptyPolytope planes in
           prim_type B = Box
         \<and> length (prim_ms B) = 6
         \<and> imFunc B = Some (IFPolytope (map m_p (prim_ms B)) (map m_n (prim_ms B)))
         \<and> (\<forall>i<6. samePlaneUpToSign (prim_ms B ! i) (planes ! i))
         \<and> (\<forall>k<3. dot (m_n (planes ! (2 * k))) (m_n (planes ! (2 * k + 1))) \<noteq> 0 \<longrightarrow>
                  normalsPointAway (prim_ms B ! (2 * k)) (prim_ms B ! (2 * k + 1)))"
    if six: "length planes = 6"
      and ne: "\<not> emptyPolytope (map m_p (orientPairs planes)) (map m_n (orientPairs planes))"
  proof -
    have B: "createBoxPrimitive emptyPolytope planes
        = Primitive_new (IFPolytope (map m_p (orientPairs planes)) (map m_n (orientPairs planes)))
            (orientPairs planes) Box"
      using six ne by (simp add: createBoxPrimitive_def Let_def)
    have len: "length (orientPairs planes) = 6"
      using six by (simp add: orientPairs_length)
    have same: "\<forall>i<6. samePlaneUpToSign (orientPairs planes ! i) (planes ! i)"
      using orientPairs_same [of _ planes] len by simp
    have face: "\<forall>k<3. normalsPointAway (orientPairs planes ! (2 * k)) (orientPairs planes ! (2 * k + 1))"
    proof (intro allI impI)
      fix k :: nat assume "k < 3"
      with six have "2 * k + 1 < length planes" by simp
      then show "normalsPointAway (orientPairs planes ! (2 * k)) (orientPairs planes ! (2 * k + 1))"
        by (rule orientPairs_face)
    qed
    show ?thesis unfolding B Let_def
      using len same face by (simp add: Primitive_new_def)
  qed
  from none box show ?thesis by blast
qed

text \<open>
  The unit cube, every plane given with the normal of its axis: the planes through the
  origin get their normals negated, and in each pair the normals point away from each
  other.
\<close>

theorem createBoxPrimitive_outward_pairs_witness:
  "prim_type (createBoxPrimitive (\<lambda>p n. False)
     [\<lparr>m_type = PlaneManifold, m_p = (0, 0, 0), m_n = (1, 0, 0), m_r = (0, 0, 0), m_pc = []\<rparr>,
      \<lparr>m_type = PlaneManifold, m_p = (1, 0, 0), m_n = (1, 0, 0), m_r = (0, 0, 0), m_pc = []\<rparr>,
      \<lparr>m_type = PlaneManifold, m_p = (0, 0, 0), m_n = (0, 1, 0), m_r = (0, 0, 0), m_pc = []\<rparr>,
      \<lparr>m_type = PlaneManifold, m_p = (0, 1, 0), m_n = (0, 1, 0), m_r = (0, 0, 0), m_pc = []\<rparr>,
      \<lparr>m_type = PlaneManifold, m_p = (0, 0, 0), m_n = (0, 0, 1), m_r = (0, 0, 0), m_pc = []\<rparr>,
      \<lparr>m_type = PlaneManifold, m_p = (0, 0, 1), m_n = (0, 0, 1), m_r = (0, 0, 0), m_pc = []\<rparr>]) = Box
 \<and> normalsPointAway (prim_ms (createBoxPrimitive (\<lambda>p n. False)
     [\<lparr>m_type = PlaneManifold, m_p = (0, 0, 0), m_n = (1, 0, 0), m_r = (0, 0, 0), m_pc = []\<rparr>,
      \<lparr>m_type = PlaneManifold, m_p = (1, 0, 0), m_n = (1, 0, 0), m_r = (0, 0, 0), m_pc = []\<rparr>,
      \<lparr>m_type = PlaneManifold, m_p = (0, 0, 0), m_n = (0, 1, 0), m_r = (0, 0, 0), m_pc = []\<rparr>,
      \<lparr>m_type = PlaneManifold, m_p = (0, 1, 0), m_n = (0, 1, 0), m_r = (0, 0, 0), m_pc = []\<rparr>,
      \<lparr>m_type = PlaneManifold, m_p = (0, 0, 0), m_n = (0, 0, 1), m_r = (0, 0, 0), m_pc = []\<rparr>,
      \<lparr>m_type = PlaneManifold, m_p = (0, 0, 1), m_n = (0, 0, 1), m_r = (0, 0, 0), m_pc = []\<rparr>]) ! 0)
       (prim_ms (createBoxPrimitive (\<lambda>p n. False)
     [\<lparr>m_type = PlaneManifold, m_p = (0, 0, 0), m_n = (1, 0, 0), m_r = (0, 0, 0), m_pc = []\<rparr>,
      \<lparr>m_type = PlaneManifold, m_p = (1, 0, 0), m_n = (1, 0, 0), m_r = (0, 0, 0), m_pc = []\<rparr>,
      \<lparr>m_type = PlaneManifold, m_p = (0, 0, 0), m_n = (0, 1, 0), m_r = (0, 0, 0), m_pc = []\<rparr>,
      \<lparr>m_type = PlaneManifold, m_p = (0, 1, 0), m_n = (0, 1, 0), m_r = (0, 0, 0), m_pc = []\<rparr>,
      \<lparr>m_type = PlaneManifold, m_p = (0, 0, 0), m_n = (0, 0, 1), m_r = (0, 0, 0), m_pc = []\<rparr>,
      \<lparr>m_type = PlaneManifold, m_p = (0, 0, 1), m_n = (0, 0, 1), m_r = (0, 0, 0), m_pc = []\<rparr>]) ! 1)
 \<and> normalsPointAway (prim_ms (createBoxPrimitive (\<lambda>p n. False)
     [\<lparr>m_type = PlaneManifold, m_p = (0, 0, 0), m_n = (1, 0, 0), m_r = (0, 0, 0), m_pc = []\<rparr>,
      \<lparr>m_type = PlaneManifold, m_p = (1, 0, 0), m_n = (1, 0, 0), m_r = (0, 0, 0), m_pc = []\<rparr>,
      \<lparr>m_type = PlaneManifold, m_p = (0, 0, 0), m_n = (0, 1, 0), m_r = (0, 0, 0), m_pc = []\<rparr>,
      \<lparr>m_type = PlaneManifold, m_p = (0, 1, 0), m_n = (0, 1, 0), m_r = (0, 0, 0), m_pc = []\<rparr>,
      \<lparr>m_type = PlaneManifold, m_p = (0, 0, 0), m_n = (0, 0, 1), m_r = (0, 0, 0), m_pc = []\<rparr>,
      \<lparr>m_type = PlaneManifold, m_p = (0, 0, 1), m_n = (0, 0, 1), m_r = (0, 0, 0), m_pc = []\<rparr>]) ! 2)
       (prim_ms (createBoxPrimitive (\<lambda>p n. False)
     [\<lparr>m_type = PlaneManifold, m_p = (0, 0, 0), m_n = (1, 0, 0), m_r = (0, 0, 0), m_pc = []\<rparr>,
      \<lparr>m_type = PlaneManifold, m_p = (1, 0, 0), m_n = (1, 0, 0), m_r = (0, 0, 0), m_pc = []\<rparr>,
      \<lparr>m_type = PlaneManifold, m_p = (0, 0, 0), m_n = (0, 1, 0), m_r = (0, 0, 0), m_pc = []\<rparr>,
      \<lparr>m_type = PlaneManifold, m_p = (0, 1, 0), m_n = (0, 1, 0), m_r = (0, 0, 0), m_pc = []\<rparr>,
      \<lparr>m_type = PlaneManifold, m_p = (0, 0, 0), m_n = (0, 0, 1), m_r = (0, 0, 0), m_pc = []\<rparr>,
      \<lparr>m_type = PlaneManifold, m_p = (0, 0, 1), m_n = (0, 0, 1), m_r = (0, 0, 0), m_pc = []\<rparr>]) ! 3)
 \<and> normalsPointAway (prim_ms (createBoxPrimitive (\<lambda>p n. False)
     [\<lparr>m_type = PlaneManifold, m_p = (0, 0, 0), m_n = (1, 0, 0), m_r = (0, 0, 0), m_pc = []\<rparr>,
      \<lparr>m_type = PlaneManifold, m_p = (1, 0, 0), m_n = (1, 0, 0), m_r = (0, 0, 0), m_pc = []\<rparr>,
      \<lparr>m_type = PlaneManifold, m_p = (0, 0, 0), m_n = (0, 1, 0), m_r = (0, 0, 0), m_pc = []\<rparr>,
      \<lparr>m_type = PlaneManifold, m_p = (0, 1, 0), m_n = (0, 1, 0), m_r = (0, 0, 0), m_pc = []\<rparr>,
      \<lparr>m_type = PlaneManifold, m_p = (0, 0, 0), m_n = (0, 0, 1), m_r = (0, 0, 0), m_pc = []\<rparr>,
      \<lparr>m_type = PlaneManifold, m_p = (0, 0, 1), m_n = (0, 0, 1), m_r = (0, 0, 0), m_pc = []\<rparr>]) ! 4)
       (prim_ms (createBoxPrimitive (\<lambda>p n. False)
     [\<lparr>m_type = PlaneManifold, m_p = (0, 0, 0), m_n = (1, 0, 0), m_r = (0, 0, 0), m_pc = []\<rparr>,
      \<lparr>m_type = PlaneManifold, m_p = (1, 0, 0), m_n = (1, 0, 0), m_r = (0, 0, 0), m_pc = []\<rparr>,
      \<lparr>m_type = PlaneManifold, m_p = (0, 0, 0), m_n = (0, 1, 0), m_r = (0, 0, 0), m_pc = []\<rparr>,
      \<lparr>m_type = PlaneManifold, m_p = (0, 1, 0), m_n = (0, 1, 0), m_r = (0, 0, 0), m_pc = []\<rparr>,
      \<lparr>m_type = PlaneManifold, m_p = (0, 0, 0), m_n = (0, 0, 1), m_r = (0, 0, 0), m_pc = []\<rparr>,
      \<lparr>m_type = PlaneManifold, m_p = (0, 0, 1), m_n = (0, 0, 1), m_r = (0, 0, 0), m_pc = []\<rparr>]) ! 5)
 \<and> map m_n (prim_ms (createBoxPrimitive (\<lambda>p n. False)
     [\<lparr>m_type = PlaneManifold, m_p = (0, 0, 0), m_n = (1, 0, 0), m_r = (0, 0, 0), m_pc = []\<rparr>,
      \<lparr>m_type = PlaneManifold, m_p = (1, 0, 0), m_n = (1, 0, 0), m_r = (0, 0, 0), m_pc = []\<rparr>,
      \<lparr>m_type = PlaneManifold, m_p = (0, 0, 0), m_n = (0, 1, 0), m_r = (0, 0, 0), m_pc = []\<rparr>,
      \<lparr>m_type = PlaneManifold, m_p = (0, 1, 0), m_n = (0, 1, 0), m_r = (0, 0, 0), m_pc = []\<rparr>,
      \<lparr>m_type = PlaneManifold, m_p = (0, 0, 0), m_n = (0, 0, 1), m_r = (0, 0, 0), m_pc = []\<rparr>,
      \<lparr>m_type = PlaneManifold, m_p = (0, 0, 1), m_n = (0, 0, 1), m_r = (0, 0, 0), m_pc = []\<rparr>]))
    = [(-1, 0, 0), (1, 0, 0), (0, -1, 0), (0, 1, 0), (0, 0, -1), (0, 0, 1)]"
proof -
  let ?cube = "[\<lparr>m_type = PlaneManifold, m_p = (0, 0, 0), m_n = (1, 0, 0), m_r = (0, 0, 0), m_pc = []\<rparr>,
      \<lparr>m_type = PlaneManifold, m_p = (1, 0, 0), m_n = (1, 0, 0), m_r = (0, 0, 0), m_pc = []\<rparr>,
      \<lparr>m_type = PlaneManifold, m_p = (0, 0, 0), m_n = (0, 1, 0), m_r = (0, 0, 0), m_pc = []\<rparr>,
      \<lparr>m_type = PlaneManifold, m_p = (0, 1, 0), m_n = (0, 1, 0), m_r = (0, 0, 0), m_pc = []\<rparr>,
      \<lparr>m_type = PlaneManifold, m_p = (0, 0, 0), m_n = (0, 0, 1), m_r = (0, 0, 0), m_pc = []\<rparr>,
      \<lparr>m_type = PlaneManifold, m_p = (0, 0, 1), m_n = (0, 0, 1), m_r = (0, 0, 0), m_pc = []\<rparr>]"
  let ?B = "createBoxPrimitive (\<lambda>p n. False) ?cube"
  have six: "length ?cube = 6" by simp
  have nonempty: "\<not> (\<lambda>p n. False) (map m_p (orientPairs ?cube)) (map m_n (orientPairs ?cube))"
    by simp
  have d0: "dot (m_n (?cube ! (2 * 0))) (m_n (?cube ! (2 * 0 + 1))) \<noteq> 0"
    and d1: "dot (m_n (?cube ! (2 * 1))) (m_n (?cube ! (2 * 1 + 1))) \<noteq> 0"
    and d2: "dot (m_n (?cube ! (2 * 2))) (m_n (?cube ! (2 * 2 + 1))) \<noteq> 0"
    by (simp_all add: dot_def)
  have normals: "map m_n (orientPairs ?cube)
      = [(-1, 0, 0), (1, 0, 0), (0, -1, 0), (0, 1, 0), (0, 0, -1), (0, 0, 1)]"
    by (simp add: orientPair_def dot_def vsub_def smul_def Let_def)
  have ms: "prim_ms ?B = orientPairs ?cube"
    by (simp add: createBoxPrimitive_def Primitive_new_def Let_def del: orientPairs.simps)
  from createBoxPrimitive_outward_pairs [of ?cube "\<lambda>p n. False"] six nonempty
  have box: "prim_type ?B = Box"
    and face: "\<forall>k<3. dot (m_n (?cube ! (2 * k))) (m_n (?cube ! (2 * k + 1))) \<noteq> 0 \<longrightarrow>
                  normalsPointAway (prim_ms ?B ! (2 * k)) (prim_ms ?B ! (2 * k + 1))"
    unfolding Let_def by blast+
  have i: "2 * 0 = (0::nat)" "2 * 0 + 1 = (1::nat)" "2 * 1 = (2::nat)" "2 * 1 + 1 = (3::nat)"
    "2 * 2 = (4::nat)" "2 * 2 + 1 = (5::nat)" by simp_all
  have f0: "normalsPointAway (prim_ms ?B ! 0) (prim_ms ?B ! 1)"
    using face [rule_format, of 0, OF _ d0] by (simp only: i) simp
  have f1: "normalsPointAway (prim_ms ?B ! 2) (prim_ms ?B ! 3)"
    using face [rule_format, of 1, OF _ d1] by (simp only: i) simp
  have f2: "normalsPointAway (prim_ms ?B ! 4) (prim_ms ?B ! 5)"
    using face [rule_format, of 2, OF _ d2] by (simp only: i) simp
  note f = f0 f1 f2
  from normals ms have n: "map m_n (prim_ms ?B)
      = [(-1, 0, 0), (1, 0, 0), (0, -1, 0), (0, 1, 0), (0, 0, -1), (0, 0, 1)]" by (simp only:)
  from box f n show ?thesis by (intro conjI)
qed

text \<open>
  Claim C4 as stated fails on the unit cube: the Box returned has the normals
  \<open>(-1, 0, 0)\<close> at \<open>x = 0\<close> and \<open>(1, 0, 0)\<close> at \<open>x = 1\<close>, and so on for the other
  axes. The planes of each pair face away from each other, not each other.
\<close>

theorem createBoxPrimitive_facing_counterexample:
  "prim_type (createBoxPrimitive (\<lambda>p n. False)
     [\<lparr>m_type = PlaneManifold, m_p = (0, 0, 0), m_n = (1, 0, 0), m_r = (0, 0, 0), m_pc = []\<rparr>,
      \<lparr>m_type = PlaneManifold, m_p = (1, 0, 0), m_n = (1, 0, 0), m_r = (0, 0, 0), m_pc = []\<rparr>,
      \<lparr>m_type = PlaneManifold, m_p = (0, 0, 0), m_n = (0, 1, 0), m_r = (0, 0, 0), m_pc = []\<rparr>,
      \<lparr>m_type = PlaneManifold, m_p = (0, 1, 0), m_n = (0, 1, 0), m_r = (0, 0, 0), m_pc = []\<rparr>,
      \<lparr>m_type = PlaneManifold, m_p = (0, 0, 0), m_n = (0, 0, 1), m_r = (0, 0, 0), m_pc = []\<rparr>,
      \<lparr>m_type = PlaneManifold, m_p = (0, 0, 1), m_n = (0, 0, 1), m_r = (0, 0, 0), m_pc = []\<rparr>]) = Box
 \<and> map m_p (prim_ms (createBoxPrimitive (\<lambda>p n. False)
     [\<lparr>m_type = PlaneManifold, m_p = (0, 0, 0), m_n = (1, 0, 0), m_r = (0, 0, 0), m_pc = []\<rparr>,
      \<lparr>m_type = PlaneManifold, m_p = (1, 0, 0), m_n = (1, 0, 0), m_r = (0, 0, 0), m_pc = []\<rparr>,
      \<lparr>m_type = PlaneManifold, m_p = (0, 0, 0), m_n = (0, 1, 0), m_r = (0, 0, 0), m_pc = []\<rparr>,
      \<lparr>m_type = PlaneManifold, m_p = (0, 1, 0), m_n = (0, 1, 0), m_r = (0, 0, 0), m_pc = []\<rparr>,
      \<lparr>m_type = PlaneManifold, m_p = (0, 0, 0), m_n = (0, 0, 1), m_r = (0, 0, 0), m_pc = []\<rparr>,
      \<lparr>m_type = PlaneManifold, m_p = (0, 0, 1), m_n = (0, 0, 1), m_r = (0, 0, 0), m_pc = []\<rparr>]))
    = [(0, 0, 0), (1, 0, 0), (0, 0, 0), (0, 1, 0), (0, 0, 0), (0, 0, 1)]
 \<and> map m_n (prim_ms (createBoxPrimitive (\<lambda>p n. False)
     [\<lparr>m_type = PlaneManifold, m_p = (0, 0, 0), m_n = (1, 0, 0), m_r = (0, 0, 0), m_pc = []\<rparr>,
      \<lparr>m_type = PlaneManifold, m_p = (1, 0, 0), m_n = (1, 0, 0), m_r = (0, 0, 0), m_pc = []\<rparr>,
      \<lparr>m_type = PlaneManifold, m_p = (0, 0, 0), m_n = (0, 1, 0), m_r = (0, 0, 0), m_pc = []\<rparr>,
      \<lparr>m_type = PlaneManifold, m_p = (0, 1, 0), m_n = (0, 1, 0), m_r = (0, 0, 0), m_pc = []\<rparr>,
      \<lparr>m_type = PlaneManifold, m_p = (0, 0, 0), m_n = (0, 0, 1), m_r = (0, 0, 0), m_pc = []\<rparr>,
      \<lparr>m_type = PlaneManifold, m_p = (0, 0, 1), m_n = (0, 0, 1), m_r = (0, 0, 0), m_pc = []\<rparr>]))
    = [(-1, 0, 0), (1, 0, 0), (0, -1, 0), (0, 1, 0), (0, 0, -1), (0, 0, 1)]
 \<and> \<not> faceEachOther (prim_ms (createBoxPrimitive (\<lambda>p n. False)
     [\<lparr>m_type = PlaneManifold, m_p = (0, 0, 0), m_n = (1, 0, 0), m_r = (0, 0, 0), m_pc = []\<rparr>,
      \<lparr>m_type = PlaneManifold, m_p = (1, 0, 0), m_n = (1, 0, 0), m_r = (0, 0, 0), m_pc = []\<rparr>,
      \<lparr>m_type = PlaneManifold, m_p = (0, 0, 0), m_n = (0, 1, 0), m_r = (0, 0, 0), m_pc = []\<rparr>,
      \<lparr>m_type = PlaneManifold, m_p = (0, 1, 0), m_n = (0, 1, 0), m_r = (0, 0, 0), m_pc = []\<rparr>,
      \<lparr>m_type = PlaneManifold, m_p = (0, 0, 0), m_n = (0, 0, 1), m_r = (0, 0, 0), m_pc = []\<rparr>,
      \<lparr>m_type = PlaneManifold, m_p = (0, 0, 1), m_n = (0, 0, 1), m_r = (0, 0, 0), m_pc = []\<rparr>]) ! 0)
       (prim_ms (createBoxPrimitive (\<lambda>p n. False)
     [\<lparr>m_type = PlaneManifold, m_p = (0, 0, 0), m_n = (1, 0, 0), m_r = (0, 0, 0), m_pc = []\<rparr>,
      \<lparr>m_type = PlaneManifold, m_p = (1, 0, 0), m_n = (1, 0, 0), m_r = (0, 0, 0), m_pc = []\<rparr>,
      \<lparr>m_type = PlaneManifold, m_p = (0, 0, 0), m_n = (0, 1, 0), m_r = (0, 0, 0), m_pc = []\<rparr>,
      \<lparr>m_type = PlaneManifold, m_p = (0, 1, 0), m_n = (0, 1, 0), m_r = (0, 0, 0), m_pc = []\<rparr>,
      \<lparr>m_type = PlaneManifold, m_p = (0, 0, 0), m_n = (0, 0, 1), m_r = (0, 0, 0), m_pc = []\<rparr>,
      \<lparr>m_type = PlaneManifold, m_p = (0, 0, 1), m_n = (0, 0, 1), m_r = (0, 0, 0), m_pc = []\<rparr>]) ! 1)
 \<and> \<not> faceEachOther (prim_ms (createBoxPrimitive (\<lambda>p n. False)
     [\<lparr>m_type = PlaneManifold, m_p = (0, 0, 0), m_n = (1, 0, 0), m_r = (0, 0, 0), m_pc = []\<rparr>,
      \<lparr>m_type = PlaneManifold, m_p = (1, 0, 0), m_n = (1, 0, 0), m_r = (0, 0, 0), m_pc = []\<rparr>,
      \<lparr>m_type = PlaneManifold, m_p = (0, 0, 0), m_n = (0, 1, 0), m_r = (0, 0, 0), m_pc = []\<rparr>,
      \<lparr>m_type = PlaneManifold, m_p = (0, 1, 0), m_n = (0, 1, 0), m_r = (0, 0, 0), m_pc = []\<rparr>,
      \<lparr>m_type = PlaneManifold, m_p = (0, 0, 0), m_n = (0, 0, 1), m_r = (0, 0, 0), m_pc = []\<rparr>,
      \<lparr>m_type = PlaneManifold, m_p = (0, 0, 1), m_n = (0, 0, 1), m_r = (0, 0, 0), m_pc = []\<rparr>]) ! 2)
       (prim_ms (createBoxPrimitive (\<lambda>p n. False)
     [\<lparr>m_type = PlaneManifold, m_p = (0, 0, 0), m_n = (1, 0, 0), m_r = (0, 0, 0), m_pc = []\<rparr>,
      \<lparr>m_type = PlaneManifold, m_p = (1, 0, 0), m_n = (1, 0, 0), m_r = (0, 0, 0), m_pc = []\<rparr>,
      \<lparr>m_type = PlaneManifold, m_p = (0, 0, 0), m_n = (0, 1, 0), m_r = (0, 0, 0), m_pc = []\<rparr>,
      \<lparr>m_type = PlaneManifold, m_p = (0, 1, 0), m_n = (0, 1, 0), m_r = (0, 0, 0), m_pc = []\<rparr>,
      \<lparr>m_type = PlaneManifold, m_p = (0, 0, 0), m_n = (0, 0, 1), m_r = (0, 0, 0), m_pc = []\<rparr>,
      \<lparr>m_type = PlaneManifold, m_p = (0, 0, 1), m_n = (0, 0, 1), m_r = (0, 0, 0), m_pc = []\<rparr>]) ! 3)
 \<and> \<not> faceEachOther (prim_ms (createBoxPrimitive (\<lambda>p n. False)
     [\<lparr>m_type = PlaneManifold, m_p = (0, 0, 0), m_n = (1, 0, 0), m_r = (0, 0, 0), m_pc = []\<rparr>,
      \<lparr>m_type = PlaneManifold, m_p = (1, 0, 0), m_n = (1, 0, 0), m_r = (0, 0, 0), m_pc = []\<rparr>,
      \<lparr>m_type = PlaneManifold, m_p = (0, 0, 0), m_n = (0, 1, 0), m_r = (0, 0, 0), m_pc = []\<rparr>,
      \<lparr>m_type = PlaneManifold, m_p = (0, 1, 0), m_n = (0, 1, 0), m_r = (0, 0, 0), m_pc = []\<rparr>,
      \<lparr>m_type = PlaneManifold, m_p = (0, 0, 0), m_n = (0, 0, 1), m_r = (0, 0, 0), m_pc = []\<rparr>,
      \<lparr>m_type = PlaneManifold, m_p = (0, 0, 1), m_n = (0, 0, 1), m_r = (0, 0, 0), m_pc = []\<rparr>]) ! 4)
       (prim_ms (createBoxPrimitive (\<lambda>p n. False)
     [\<lparr>m_type = PlaneManifold, m_p = (0, 0, 0), m_n = (1, 0, 0), m_r = (0, 0, 0), m_pc = []\<rparr>,
      \<lparr>m_type = PlaneManifold, m_p = (1, 0, 0), m_n = (1, 0, 0), m_r = (0, 0, 0), m_pc = []\<rparr>,
      \<lparr>m_type = PlaneManifold, m_p = (0, 0, 0), m_n = (0, 1, 0), m_r = (0, 0, 0), m_pc = []\<rparr>,
      \<lparr>m_type = PlaneManifold, m_p = (0, 1, 0), m_n = (0, 1, 0), m_r = (0, 0, 0), m_pc = []\<rparr>,
      \<lparr>m_type = PlaneManifold, m_p = (0, 0, 0), m_n = (0, 0, 1), m_r = (0, 0, 0), m_pc = []\<rparr>,
      \<lparr>m_type = PlaneManifold, m_p = (0, 0, 1), m_n = (0, 0, 1), m_r = (0, 0, 0), m_pc = []\<rparr>]) ! 5)"
  by (simp add: createBoxPrimitive_def Primitive_new_def orientPair_def faceEachOther_def
      rayParameter_def dot_def vsub_def smul_def Let_def)

lemma axisIntersection_on_plane:
  assumes "dot (m_n m) (m_n c) \<noteq> 0"
  shows "dot (vsub (axisIntersection m c) (m_p c)) (m_n c) = 0"
proof -
  obtain lx ly lz where l: "m_n m = (lx, ly, lz)" by (cases "m_n m")
  obtain nx ny nz where n: "m_n c = (nx, ny, nz)" by (cases "m_n c")
  obtain px py pz where p: "m_p c = (px, py, pz)" by (cases "m_p c")
  obtain qx qy qz where q: "m_p m = (qx, qy, qz)" by (cases "m_p m")
  define D where "D = lx * nx + ly * ny + lz * nz"
  define N where "N = (px - qx) * nx + (py - qy) * ny + (pz - qz) * nz"
  from assms l n have nz: "D \<noteq> 0" by (simp add: dot_def D_def)
  have ai: "axisIntersection m c = (N / D * lx + qx, N / D * ly + qy, N / D * lz + qz)"
    unfolding axisIntersection_def Let_def l n p q dot_def vsub_def vadd_def smul_def D_def N_def
    by simp
  define k where "k = N / D"
  have "dot (vsub (k * lx + qx, k * ly + qy, k * lz + qz) (px, py, pz)) (nx, ny, nz)
      = k * D - N"
    unfolding dot_def vsub_def D_def N_def by (simp add: algebra_simps)
  then have "dot (vsub (axisIntersection m c) (m_p c)) (m_n c) = k * D - N"
    unfolding ai p n k_def .
  with nz show ?thesis by (simp add: k_def)
qed

lemma axisIntersection_on_axis:
  "\<exists>d. axisIntersection m c = vadd (smul d (m_n m)) (m_p m)"
  unfolding axisIntersection_def Let_def by blast

lemma estimateSecond_antiparallel:
  assumes "m_pc m \<noteq> []"
  shows "\<exists>c1. estimateSecondCylinderPlaneFromPointCloud m c0 = Some c1
           \<and> m_type c1 = PlaneManifold \<and> m_n c1 = smul (-1) (m_n c0)"
proof -
  from assms obtain q qs where "map fst (m_pc m) = q # qs" by (cases "m_pc m") auto
  then show ?thesis
    by (simp add: estimateSecondCylinderPlaneFromPointCloud_def colwiseMin_def colwiseMax_def Let_def)
qed

lemma unit_antiparallel_within:
  assumes unit: "vnorm n = 1" and eps: "0 < eps" "eps \<le> pi"
  shows "parallelWithin eps n (smul (-1) n)"
proof -
  from unit have "dot n n = 1" by (simp add: vnorm_def)
  then have "\<bar>dot n (smul (-1) n)\<bar> = 1"
    by (cases n) (simp add: dot_def smul_def)
  moreover from cos_monotone_0_pi [of 0 eps] eps have "cos eps < 1" by simp
  ultimately show ?thesis by (simp add: parallelWithin_def)
qed

lemma getManifold_selected:
  assumes "getManifold X C ty dir used eps ign pt mind g = (Some p, g')"
  shows "m_type p = ty \<and> (ign \<or> parallelWithin eps dir (m_n p))"
proof -
  define P where "P = (\<lambda>m. m_type m = ty
            \<and> \<not> (\<exists>alreadyUsedM\<in>set used. manifoldsEqual X m alreadyUsedM 0.0001)
            \<and> (ign \<or> \<bar>dot dir (m_n m)\<bar> > cos eps)
            \<and> \<bar>dot (vsub pt (m_p m)) (m_n m)\<bar> > mind)"
  define cands where "cands = filter P (ms C)"
  have gm: "getManifold X C ty dir used eps ign pt mind g =
      (if cands = [] then (None, g)
       else (let (i, g1) = uniform_int 0 (int (length cands) - 1) g
             in (Some (cands ! nat i), g1)))"
    unfolding getManifold_def cands_def P_def Let_def by (rule refl)
  from assms have ne: "cands \<noteq> []"
    unfolding gm by (auto split: if_splits)
  obtain i g1 where i: "uniform_int 0 (int (length cands) - 1) g = (i, g1)"
    by (cases "uniform_int 0 (int (length cands) - 1) g")
  from ne have "0 \<le> int (length cands) - 1" by (cases cands) auto
  from uniform_int_range [OF this, of g] i have "0 \<le> i" "i < int (length cands)" by simp_all
  then have "nat i < length cands" by (simp add: nat_less_iff)
  then have "cands ! nat i \<in> set cands" by (rule nth_mem)
  moreover from assms ne i have "p = cands ! nat i"
    unfolding gm by simp
  ultimately have "p \<in> set cands" by simp
  then have "P p" unfolding cands_def by simp
  then show ?thesis unfolding P_def parallelWithin_def by blast
qed

lemma selectCapPlanes_direction:
  assumes "\<not> default_ignoreDirection X"
    and "\<forall>p\<in>set planes. m_type p = PlaneManifold \<and> parallelWithin eps (m_n cyl) (m_n p)"
  shows "\<forall>p\<in>set (fst (selectCapPlanes X C cyl eps k planes g)).
           m_type p = PlaneManifold \<and> parallelWithin eps (m_n cyl) (m_n p)"
  using assms(2)
proof (induction k arbitrary: planes g)
  case 0
  then show ?case by simp
next
  case (Suc k)
  obtain r g1 where r: "getManifold X C PlaneManifold (m_n cyl) planes eps (default_ignoreDirection X)
             (default_point X) (default_minimumPointDistance X) g = (r, g1)"
    by (cases "getManifold X C PlaneManifold (m_n cyl) planes eps (default_ignoreDirection X)
             (default_point X) (default_minimumPointDistance X) g")
  show ?case
  proof (cases r)
    case None
    with r Suc.IH [OF Suc.prems, of g1] show ?thesis by simp
  next
    case (Some p)
    with r getManifold_selected [of X C PlaneManifold "m_n cyl" planes eps "default_ignoreDirection X"
        "default_point X" "default_minimumPointDistance X" g p g1] assms(1)
    have "m_type p = PlaneManifold \<and> parallelWithin eps (m_n cyl) (m_n p)" by simp
    with Suc.prems have "\<forall>q\<in>set (planes @ [p]). m_type q = PlaneManifold \<and> parallelWithin eps (m_n cyl) (m_n q)"
      by simp
    from Suc.IH [OF this, of g1] r Some show ?thesis by simp
  qed
qed

lemma selectCapPlanes_length:
  "length (fst (selectCapPlanes X C cyl eps k planes g)) \<le> length planes + k"
proof (induction k arbitrary: planes g)
  case 0
  then show ?case by simp
next
  case (Suc k)
  obtain r g1 where r: "getManifold X C PlaneManifold (m_n cyl) planes eps (default_ignoreDirection X)
             (default_point X) (default_minimumPointDistance X) g = (r, g1)"
    by (cases "getManifold X C PlaneManifold (m_n cyl) planes eps (default_ignoreDirection X)
             (default_point X) (default_minimumPointDistance X) g")
  show ?case
  proof (cases r)
    case None
    with r Suc.IH [of planes g1] show ?thesis by simp
  next
    case (Some p)
    with r Suc.IH [of "planes @ [p]" g1] show ?thesis by simp
  qed
qed

text \<open>
  Claim C5, as amended. A cylinder built from two cap planes has the manifolds
  \<open>[m, c0, c1]\<close>, and the height stored in its implicit function is the distance
  between the two points computed as the intersections of the axis with the cap planes;
  each such point lies on the axis, and on its cap plane whenever the axis is not
  parallel to that plane. When a single cap is given and the cylinder manifold has
  points, the partner is synthesised as a plane with the negated normal, so for a unit
  normal the two caps are parallel within every angle in \<open>(0, \<pi>]\<close>. Two given caps
  are not compared with each other: the caps that the creator selects are planes, each
  parallel within \<open>angle_\<epsilon>\<close> to the axis of the cylinder.
\<close>

theorem createCylinderPrimitive_caps_and_height:
  "createCylinderPrimitive m [c0, c1] = Some (cylinderFromTwoPlanes m c0 c1)
 \<and> (m_pc m \<noteq> [] \<longrightarrow>
      (\<exists>c2. createCylinderPrimitive m [c0] = Some (cylinderFromTwoPlanes m c0 c2)
           \<and> m_type c2 = PlaneManifold \<and> m_n c2 = smul (-1) (m_n c0)
           \<and> (vnorm (m_n c0) = 1 \<and> 0 < eps \<and> eps \<le> pi \<longrightarrow> parallelWithin eps (m_n c0) (m_n c2))))
 \<and> prim_type (cylinderFromTwoPlanes m c0 c1) = Cylinder
 \<and> prim_ms (cylinderFromTwoPlanes m c0 c1) = [m, c0, c1]
 \<and> imFunc (cylinderFromTwoPlanes m c0 c1)
       = Some (IFCylinder
                 (vadd (axisIntersection m c0)
                    (smul (1 / 2) (vsub (axisIntersection m c1) (axisIntersection m c0))))
                 (m_n m) (vx (m_r m))
                 (vnorm (vsub (axisIntersection m c0) (axisIntersection m c1))))
 \<and> (\<forall>c. (\<exists>d. axisIntersection m c = vadd (smul d (m_n m)) (m_p m))
        \<and> (dot (m_n m) (m_n c) \<noteq> 0 \<longrightarrow> dot (vsub (axisIntersection m c) (m_p c)) (m_n c) = 0))
 \<and> (\<not> default_ignoreDirection X \<longrightarrow>
      (\<forall>p\<in>set (fst (selectCapPlanes X C m eps k [] g)).
          m_type p = PlaneManifold \<and> parallelWithin eps (m_n m) (m_n p)))"
proof -
  have two: "createCylinderPrimitive m [c0, c1] = Some (cylinderFromTwoPlanes m c0 c1)"
    by (simp add: createCylinderPrimitive_def)
  have one: "\<exists>c2. createCylinderPrimitive m [c0] = Some (cylinderFromTwoPlanes m c0 c2)
           \<and> m_type c2 = PlaneManifold \<and> m_n c2 = smul (-1) (m_n c0)
           \<and> (vnorm (m_n c0) = 1 \<and> 0 < eps \<and> eps \<le> pi \<longrightarrow> parallelWithin eps (m_n c0) (m_n c2))"
    if "m_pc m \<noteq> []"
  proof -
    from estimateSecond_antiparallel [OF that, of c0]
    obtain c2 where c2: "estimateSecondCylinderPlaneFromPointCloud m c0 = Some c2"
      "m_type c2 = PlaneManifold" "m_n c2 = smul (-1) (m_n c0)" by blast
    then have "createCylinderPrimitive m [c0] = Some (cylinderFromTwoPlanes m c0 c2)"
      by (simp add: createCylinderPrimitive_def)
    with c2 unit_antiparallel_within [of "m_n c0" eps] show ?thesis by auto
  qed
  have shape: "prim_type (cylinderFromTwoPlanes m c0 c1) = Cylinder"
    "prim_ms (cylinderFromTwoPlanes m c0 c1) = [m, c0, c1]"
    "imFunc (cylinderFromTwoPlanes m c0 c1)
       = Some (IFCylinder
                 (vadd (axisIntersection m c0)
                    (smul (1 / 2) (vsub (axisIntersection m c1) (axisIntersection m c0))))
                 (m_n m) (vx (m_r m))
                 (vnorm (vsub (axisIntersection m c0) (axisIntersection m c1))))"
    by (simp_all add: cylinderFromTwoPlanes_def Primitive_new_def Let_def)
  have caps: "\<not> default_ignoreDirection X \<Longrightarrow>
      (\<forall>p\<in>set (fst (selectCapPlanes X C m eps k [] g)).
          m_type p = PlaneManifold \<and> parallelWithin eps (m_n m) (m_n p))"
    using selectCapPlanes_direction [of X "[]" eps m C k g] by simp
  have meet: "\<forall>c. (\<exists>d. axisIntersection m c = vadd (smul d (m_n m)) (m_p m))
        \<and> (dot (m_n m) (m_n c) \<noteq> 0 \<longrightarrow> dot (vsub (axisIntersection m c) (m_p c)) (m_n c) = 0)"
    using axisIntersection_on_axis [of m] axisIntersection_on_plane [of m] by blast
  show ?thesis
    apply (intro conjI impI)
    subgoal by (rule two)
    subgoal by (erule one)
    subgoal by (rule shape(1))
    subgoal by (rule shape(2))
    subgoal by (rule shape(3))
    subgoal by (rule meet)
    subgoal by (erule caps)
    done
qed

text \<open>
  A cylinder about the z axis with two sample points, a cap through the origin, and a
  creator with one plane to select from.
\<close>

theorem createCylinderPrimitive_caps_and_height_witness:
  "(\<exists>c2. createCylinderPrimitive
           \<lparr>m_type = CylinderManifold, m_p = (0, 0, 0), m_n = (0, 0, 1), m_r = (1, 0, 0),
            m_pc = [((1, 0, 0), (1, 0, 0)), ((1, 0, 2), (1, 0, 0))]\<rparr>
           [\<lparr>m_type = PlaneManifold, m_p = (0, 0, 0), m_n = (0, 0, -1), m_r = (0, 0, 0), m_pc = []\<rparr>]
         = Some (cylinderFromTwoPlanes
           \<lparr>m_type = CylinderManifold, m_p = (0, 0, 0), m_n = (0, 0, 1), m_r = (1, 0, 0),
            m_pc = [((1, 0, 0), (1, 0, 0)), ((1, 0, 2), (1, 0, 0))]\<rparr>
           \<lparr>m_type = PlaneManifold, m_p = (0, 0, 0), m_n = (0, 0, -1), m_r = (0, 0, 0), m_pc = []\<rparr> c2)
       \<and> parallelWithin (pi / 3)
           (m_n \<lparr>m_type = PlaneManifold, m_p = (0, 0, 0), m_n = (0, 0, -1), m_r = (0, 0, 0), m_pc = []\<rparr>) (m_n c2))
 \<and> dot (vsub (axisIntersection
           \<lparr>m_type = CylinderManifold, m_p = (0, 0, 0), m_n = (0, 0, 1), m_r = (1, 0, 0),
            m_pc = [((1, 0, 0), (1, 0, 0)), ((1, 0, 2), (1, 0, 0))]\<rparr>
           \<lparr>m_type = PlaneManifold, m_p = (0, 0, 3), m_n = (0, 0, 1), m_r = (0, 0, 0), m_pc = []\<rparr>)
         (m_p \<lparr>m_type = PlaneManifold, m_p = (0, 0, 3), m_n = (0, 0, 1), m_r = (0, 0, 0), m_pc = []\<rparr>))
       (m_n \<lparr>m_type = PlaneManifold, m_p = (0, 0, 3), m_n = (0, 0, 1), m_r = (0, 0, 0), m_pc = []\<rparr>) = 0
 \<and> fst (selectCapPlanes
           \<lparr>manifoldsEqual = (\<lambda>a b e. a = b), polytope_empty = (\<lambda>p n. False),
            default_ignoreDirection = False, default_point = (0, 0, 0),
            default_minimumPointDistance = - 1\<rparr>
           (PrimitiveSetCreator_new minstd_rand0 0
              [\<lparr>m_type = PlaneManifold, m_p = (0, 0, 3), m_n = (0, 0, 1), m_r = (0, 0, 0), m_pc = []\<rparr>]
              0 [2 / 5, 3 / 20, 3 / 20, 3 / 20, 3 / 20] 1 1 50 (pi / 3) (1 / 1000))
           \<lparr>m_type = CylinderManifold, m_p = (0, 0, 0), m_n = (0, 0, 1), m_r = (1, 0, 0),
            m_pc = [((1, 0, 0), (1, 0, 0)), ((1, 0, 2), (1, 0, 0))]\<rparr>
           (pi / 3) 2 [] (sconst 0))
     = [\<lparr>m_type = PlaneManifold, m_p = (0, 0, 3), m_n = (0, 0, 1), m_r = (0, 0, 0), m_pc = []\<rparr>]
 \<and> parallelWithin (pi / 3)
       (m_n \<lparr>m_type = CylinderManifold, m_p = (0, 0, 0), m_n = (0, 0, 1), m_r = (1, 0, 0),
            m_pc = [((1, 0, 0), (1, 0, 0)), ((1, 0, 2), (1, 0, 0))]\<rparr>)
       (m_n \<lparr>m_type = PlaneManifold, m_p = (0, 0, 3), m_n = (0, 0, 1), m_r = (0, 0, 0), m_pc = []\<rparr>)"
proof -
  let ?m = "\<lparr>m_type = CylinderManifold, m_p = (0, 0, 0), m_n = (0, 0, 1), m_r = (1, 0, 0),
            m_pc = [((1, 0, 0), (1, 0, 0)), ((1, 0, 2), (1, 0, 0))]\<rparr>"
  let ?c0 = "\<lparr>m_type = PlaneManifold, m_p = (0, 0, 0), m_n = (0, 0, -1), m_r = (0, 0, 0), m_pc = []\<rparr>"
  let ?c1 = "\<lparr>m_type = PlaneManifold, m_p = (0, 0, 3), m_n = (0, 0, 1), m_r = (0, 0, 0), m_pc = []\<rparr>"
  let ?X = "\<lparr>manifoldsEqual = (\<lambda>a b e. a = b), polytope_empty = (\<lambda>p n. False),
            default_ignoreDirection = False, default_point = (0, 0, 0),
            default_minimumPointDistance = - 1\<rparr>"
  let ?C = "PrimitiveSetCreator_new minstd_rand0 0 [?c1]
              0 [2 / 5, 3 / 20, 3 / 20, 3 / 20, 3 / 20] 1 1 50 (pi / 3) (1 / 1000)"
  have pc: "m_pc ?m \<noteq> []" by simp
  have unit: "vnorm (m_n ?c0) = 1 \<and> 0 < pi / 3 \<and> pi / 3 \<le> pi" by (simp add: vnorm_def dot_def)
  have cross: "dot (m_n ?m) (m_n ?c1) \<noteq> 0" by (simp add: dot_def)
  have ign: "\<not> default_ignoreDirection ?X" by simp
  have sel: "fst (selectCapPlanes ?X ?C ?m (pi / 3) 2 [] (sconst 0)) = [?c1]"
    by (simp add: numeral_2_eq_2 getManifold_def PrimitiveSetCreator_new_def uniform_int_def
        dot_def vsub_def cos_60 Let_def)
  note T = createCylinderPrimitive_caps_and_height
     [where m = ?m and ?c0.0 = ?c0 and ?c1.0 = ?c1 and eps = "pi / 3" and X = ?X and C = ?C
        and k = 2 and g = "sconst 0"]
  from T [THEN conjunct2, THEN conjunct1, rule_format, OF pc]
  obtain c2 where c2: "createCylinderPrimitive ?m [?c0] = Some (cylinderFromTwoPlanes ?m ?c0 c2)"
    and par: "vnorm (m_n ?c0) = 1 \<and> 0 < pi / 3 \<and> pi / 3 \<le> pi \<longrightarrow>
              parallelWithin (pi / 3) (m_n ?c0) (m_n c2)"
    by blast
  from par unit have "parallelWithin (pi / 3) (m_n ?c0) (m_n c2)" by (rule mp)
  with c2 have one: "\<exists>c2. createCylinderPrimitive ?m [?c0] = Some (cylinderFromTwoPlanes ?m ?c0 c2)
       \<and> parallelWithin (pi / 3) (m_n ?c0) (m_n c2)" by blast
  from T [THEN conjunct2, THEN conjunct2, THEN conjunct2, THEN conjunct2, THEN conjunct2,
          THEN conjunct1, rule_format, of ?c1, THEN conjunct2, rule_format, OF cross]
  have meet: "dot (vsub (axisIntersection ?m ?c1) (m_p ?c1)) (m_n ?c1) = 0" .
  have "?c1 \<in> set (fst (selectCapPlanes ?X ?C ?m (pi / 3) 2 [] (sconst 0)))"
    unfolding sel by simp
  from T [THEN conjunct2, THEN conjunct2, THEN conjunct2, THEN conjunct2, THEN conjunct2,
          THEN conjunct2, rule_format, OF ign this]
  have caps: "parallelWithin (pi / 3) (m_n ?m) (m_n ?c1)" by (rule conjunct2)
  from one meet sel caps show ?thesis by (intro conjI)
qed

text \<open>
  Claim C5 as stated fails for a cylinder that the creator builds with
  \<open>angle_\<epsilon> = \<pi>/3\<close>: both caps pass the direction test against the axis, their
  normals \<open>(3/5, 0, 4/5)\<close> and \<open>(-3/5, 0, 4/5)\<close> having the cosine \<open>4/5 > 1/2\<close>
  with it, but the cosine between the two is \<open>7/25\<close>, so they are not parallel to
  each other within \<open>angle_\<epsilon>\<close>.
\<close>

theorem cylinder_caps_not_parallel_counterexample:
  "map_option (prim_ms \<circ> fst)
     (createPrimitive
        \<lparr>manifoldsEqual = (\<lambda>a b e. a = b), polytope_empty = (\<lambda>p n. False),
         default_ignoreDirection = False, default_point = (0, 0, 0),
         default_minimumPointDistance = - 1\<rparr>
        (PrimitiveSetCreator_new minstd_rand0 0
           [\<lparr>m_type = CylinderManifold, m_p = (0, 0, 0), m_n = (0, 0, 1), m_r = (1, 0, 0), m_pc = []\<rparr>,
            \<lparr>m_type = PlaneManifold, m_p = (0, 0, 1), m_n = (3 / 5, 0, 4 / 5), m_r = (0, 0, 0), m_pc = []\<rparr>,
            \<lparr>m_type = PlaneManifold, m_p = (0, 0, - 1), m_n = (- 3 / 5, 0, 4 / 5), m_r = (0, 0, 0), m_pc = []\<rparr>]
           0 [2 / 5, 3 / 20, 3 / 20, 3 / 20, 3 / 20] 1 1 50 (pi / 3) (1 / 1000))
        (0 ## 0 ## 2 ## sconst 0))
   = Some [\<lparr>m_type = CylinderManifold, m_p = (0, 0, 0), m_n = (0, 0, 1), m_r = (1, 0, 0), m_pc = []\<rparr>,
           \<lparr>m_type = PlaneManifold, m_p = (0, 0, 1), m_n = (3 / 5, 0, 4 / 5), m_r = (0, 0, 0), m_pc = []\<rparr>,
           \<lparr>m_type = PlaneManifold, m_p = (0, 0, - 1), m_n = (- 3 / 5, 0, 4 / 5), m_r = (0, 0, 0), m_pc = []\<rparr>]
 \<and> \<not> parallelWithin (pi / 3) (3 / 5, 0, 4 / 5) (- 3 / 5, 0, 4 / 5)"
  by (simp add: createPrimitive_def getRandomPrimitiveType_def PrimitiveSetCreator_new_def
      getAvailableManifoldTypes_def getManifold_def uniform_int_def bernoulli_def
      createCylinderPrimitive_def cylinderFromTwoPlanes_def Primitive_new_def
      parallelWithin_def dot_def vsub_def cos_60 Let_def numeral_2_eq_2)

section \<open>Properties of the primitive set creator\<close>

text \<open>
  Claim C9, as amended. For every Sphere primitive, \<^verbatim>\<open>mutatePrimitive\<close> returns a
  primitive with the same implicit function, the same manifolds and the same kind; its
  cutout flag is not kept but drawn anew, with one draw from the engine.
\<close>

theorem mutatePrimitive_sphere_redraws_cutout:
  assumes "prim_type p = Sphere"
  shows "\<exists>q. mutatePrimitive X C p angleEps g = Some (q, stl g)
           \<and> imFunc q = imFunc p \<and> prim_ms q = prim_ms p \<and> prim_type q = prim_type p
           \<and> cutout q = even (shd g)"
  using assms by (simp add: mutatePrimitive_def bernoulli_def)

text \<open>The unit sphere at the origin, and an engine whose next output is odd.\<close>

theorem mutatePrimitive_sphere_redraws_cutout_witness:
  "\<exists>q. mutatePrimitive
          \<lparr>manifoldsEqual = (\<lambda>a b e. a = b), polytope_empty = (\<lambda>p n. False),
           default_ignoreDirection = False, default_point = (0, 0, 0),
           default_minimumPointDistance = - 1\<rparr>
          (PrimitiveSetCreator_new minstd_rand0 0
             [\<lparr>m_type = SphereManifold, m_p = (0, 0, 0), m_n = (0, 0, 0), m_r = (1, 0, 0), m_pc = []\<rparr>]
             0 [2 / 5, 3 / 20, 3 / 20, 3 / 20, 3 / 20] 1 1 50 (pi / 9) (1 / 1000))
          (createSpherePrimitive
             (Some \<lparr>m_type = SphereManifold, m_p = (0, 0, 0), m_n = (0, 0, 0), m_r = (1, 0, 0), m_pc = []\<rparr>))
          (pi / 9) (sconst 1)
        = Some (q, stl (sconst 1))
      \<and> imFunc q = Some (IFSphere (0, 0, 0) 1) \<and> cutout q = False"
  using mutatePrimitive_sphere_redraws_cutout
    [of "createSpherePrimitive
             (Some \<lparr>m_type = SphereManifold, m_p = (0, 0, 0), m_n = (0, 0, 0), m_r = (1, 0, 0), m_pc = []\<rparr>)"
        "\<lparr>manifoldsEqual = (\<lambda>a b e. a = b), polytope_empty = (\<lambda>p n. False),
           default_ignoreDirection = False, default_point = (0, 0, 0),
           default_minimumPointDistance = - 1\<rparr>"
        "PrimitiveSetCreator_new minstd_rand0 0
             [\<lparr>m_type = SphereManifold, m_p = (0, 0, 0), m_n = (0, 0, 0), m_r = (1, 0, 0), m_pc = []\<rparr>]
             0 [2 / 5, 3 / 20, 3 / 20, 3 / 20, 3 / 20] 1 1 50 (pi / 9) (1 / 1000)"
        "pi / 9" "sconst 1"]
  by (simp add: createSpherePrimitive_def Primitive_new_def vx_def) blast

text \<open>
  Claim C9 as stated fails: the unit sphere, taken as no cutout, is a cutout after the
  mutation when the next output of the engine is even.
\<close>

theorem mutatePrimitive_sphere_counterexample:
  "cutout ((createSpherePrimitive
             (Some \<lparr>m_type = SphereManifold, m_p = (0, 0, 0), m_n = (0, 0, 0), m_r = (1, 0, 0), m_pc = []\<rparr>))
           \<lparr>cutout := False\<rparr>)
     = False
 \<and> map_option (cutout \<circ> fst)
      (mutatePrimitive
          \<lparr>manifoldsEqual = (\<lambda>a b e. a = b), polytope_empty = (\<lambda>p n. False),
           default_ignoreDirection = False, default_point = (0, 0, 0),
           default_minimumPointDistance = - 1\<rparr>
          (PrimitiveSetCreator_new minstd_rand0 0
             [\<lparr>m_type = SphereManifold, m_p = (0, 0, 0), m_n = (0, 0, 0), m_r = (1, 0, 0), m_pc = []\<rparr>]
             0 [2 / 5, 3 / 20, 3 / 20, 3 / 20, 3 / 20] 1 1 50 (pi / 9) (1 / 1000))
          ((createSpherePrimitive
             (Some \<lparr>m_type = SphereManifold, m_p = (0, 0, 0), m_n = (0, 0, 0), m_r = (1, 0, 0), m_pc = []\<rparr>))
           \<lparr>cutout := False\<rparr>)
          (pi / 9) (sconst 0))
     = Some True"
  by (simp add: mutatePrimitive_def createSpherePrimitive_def Primitive_new_def bernoulli_def)

lemma getRandomPrimitiveIdx_range:
  assumes "ps \<noteq> []"
  shows "0 \<le> fst (getRandomPrimitiveIdx ps g) \<and> fst (getRandomPrimitiveIdx ps g) < int (length ps)"
proof -
  from assms have "0 \<le> int (length ps) - 1" by (cases ps) auto
  from uniform_int_range [OF this, of g] show ?thesis
    by (simp add: getRandomPrimitiveIdx_def)
qed

lemma mutate_round_keeps_members:
  assumes "mutate_round X C mt ps g = Some (ps', g')"
  shows "length ps \<le> length ps'"
  using assms
  by (cases mt)
     (auto simp add: mutate_round_def Let_def split: prod.splits option.splits if_splits)

text \<open>
  Claim C10. Called on the empty primitive set, \<^verbatim>\<open>mutate\<close> gives for every mutation
  kind, whatever the state of the shared distribution it is drawn from, what
  \<^verbatim>\<open>create\<close> gives from the same engine state, which is what the kind NEW
  gives on any set; the loop over the other kinds is not entered. On a set that is not
  empty the random index lies within the set, and a round of the loop never empties
  the set: no round indexes into an empty set.
\<close>

theorem mutate_empty_set_creates:
  "mutate_kind X C mt [] g = create_set X C g
 \<and> mutate_kind X C mt [] g = mutate_kind X C NEW ps g
 \<and> PrimitiveSetCreator_mutate X shared C []
     = map_option (\<lambda>(ps', g'). (ps', C\<lparr>prim_rndEngine := g'\<rparr>, Some (staticDistribution shared C)))
         (create_set X C (snd (discrete_draw (staticDistribution shared C) (prim_rndEngine C))))
 \<and> (ps \<noteq> [] \<longrightarrow>
       0 \<le> fst (getRandomPrimitiveIdx ps g) \<and> fst (getRandomPrimitiveIdx ps g) < int (length ps))
 \<and> (ps \<noteq> [] \<and> mutate_round X C mt ps g = Some (ps', g') \<longrightarrow> ps' \<noteq> [])"
proof -
  have a: "mutate_kind X C mt [] g = create_set X C g"
    by (simp add: mutate_kind_def)
  have b: "mutate_kind X C mt [] g = mutate_kind X C NEW ps g"
    by (simp add: mutate_kind_def)
  have c: "PrimitiveSetCreator_mutate X shared C []
     = map_option (\<lambda>(ps', g'). (ps', C\<lparr>prim_rndEngine := g'\<rparr>, Some (staticDistribution shared C)))
         (create_set X C (snd (discrete_draw (staticDistribution shared C) (prim_rndEngine C))))"
    by (simp add: PrimitiveSetCreator_mutate_def mutate_kind_def Let_def split: prod.splits)
  have d: "ps \<noteq> [] \<Longrightarrow>
       0 \<le> fst (getRandomPrimitiveIdx ps g) \<and> fst (getRandomPrimitiveIdx ps g) < int (length ps)"
    by (rule getRandomPrimitiveIdx_range)
  have e: "ps \<noteq> [] \<and> mutate_round X C mt ps g = Some (ps', g') \<Longrightarrow> ps' \<noteq> []"
    using mutate_round_keeps_members [of X C mt ps g ps' g'] by auto
  from a b c d e show ?thesis by blast
qed

text \<open>
  A creator with a cylinder and two planes and sets of one member: on the empty set the
  kind MODIFY returns the created set, a cylinder with both caps.
\<close>

theorem mutate_empty_set_creates_witness:
  "map_option (map prim_ms \<circ> fst)
     (mutate_kind
        \<lparr>manifoldsEqual = (\<lambda>a b e. a = b), polytope_empty = (\<lambda>p n. False),
         default_ignoreDirection = False, default_point = (0, 0, 0),
         default_minimumPointDistance = - 1\<rparr>
        (PrimitiveSetCreator_new minstd_rand0 0
           [\<lparr>m_type = CylinderManifold, m_p = (0, 0, 0), m_n = (0, 0, 1), m_r = (1, 0, 0), m_pc = []\<rparr>,
            \<lparr>m_type = PlaneManifold, m_p = (0, 0, 1), m_n = (0, 0, 1), m_r = (0, 0, 0), m_pc = []\<rparr>,
            \<lparr>m_type = PlaneManifold, m_p = (0, 0, - 1), m_n = (0, 0, - 1), m_r = (0, 0, 0), m_pc = []\<rparr>]
           0 [2 / 5, 3 / 20, 3 / 20, 3 / 20, 3 / 20] 1 1 1 (pi / 3) (1 / 1000))
        MODIFY [] (0 ## 0 ## 0 ## 2 ## sconst 0))
   = Some [[\<lparr>m_type = CylinderManifold, m_p = (0, 0, 0), m_n = (0, 0, 1), m_r = (1, 0, 0), m_pc = []\<rparr>,
            \<lparr>m_type = PlaneManifold, m_p = (0, 0, 1), m_n = (0, 0, 1), m_r = (0, 0, 0), m_pc = []\<rparr>,
            \<lparr>m_type = PlaneManifold, m_p = (0, 0, - 1), m_n = (0, 0, - 1), m_r = (0, 0, 0), m_pc = []\<rparr>]]
 \<and> fst (getRandomPrimitiveIdx [Primitive_None] (0 ## 0 ## 0 ## 2 ## sconst 0)) = 0
 \<and> mutate_round
        \<lparr>manifoldsEqual = (\<lambda>a b e. a = b), polytope_empty = (\<lambda>p n. False),
         default_ignoreDirection = False, default_point = (0, 0, 0),
         default_minimumPointDistance = - 1\<rparr>
        (PrimitiveSetCreator_new minstd_rand0 0
           [\<lparr>m_type = CylinderManifold, m_p = (0, 0, 0), m_n = (0, 0, 1), m_r = (1, 0, 0), m_pc = []\<rparr>,
            \<lparr>m_type = PlaneManifold, m_p = (0, 0, 1), m_n = (0, 0, 1), m_r = (0, 0, 0), m_pc = []\<rparr>,
            \<lparr>m_type = PlaneManifold, m_p = (0, 0, - 1), m_n = (0, 0, - 1), m_r = (0, 0, 0), m_pc = []\<rparr>]
           0 [2 / 5, 3 / 20, 3 / 20, 3 / 20, 3 / 20] 1 1 1 (pi / 3) (1 / 1000))
        REMOVE [Primitive_None] (sconst 0)
     = Some ([Primitive_None], sconst 0)"
proof -
  let ?X = "\<lparr>manifoldsEqual = (\<lambda>a b e. a = b), polytope_empty = (\<lambda>p n. False),
         default_ignoreDirection = False, default_point = (0, 0, 0),
         default_minimumPointDistance = - 1\<rparr>"
  let ?C = "PrimitiveSetCreator_new minstd_rand0 0
           [\<lparr>m_type = CylinderManifold, m_p = (0, 0, 0), m_n = (0, 0, 1), m_r = (1, 0, 0), m_pc = []\<rparr>,
            \<lparr>m_type = PlaneManifold, m_p = (0, 0, 1), m_n = (0, 0, 1), m_r = (0, 0, 0), m_pc = []\<rparr>,
            \<lparr>m_type = PlaneManifold, m_p = (0, 0, - 1), m_n = (0, 0, - 1), m_r = (0, 0, 0), m_pc = []\<rparr>]
           0 [2 / 5, 3 / 20, 3 / 20, 3 / 20, 3 / 20] 1 1 1 (pi / 3) (1 / 1000)"
  let ?g = "0 ## 0 ## 0 ## 2 ## sconst 0"
  note T = mutate_empty_set_creates
    [where X = ?X and C = ?C and mt = MODIFY and g = ?g and ps = "[Primitive_None]"]
  have prim: "createPrimitive ?X ?C (0 ## 0 ## 2 ## sconst 0)
      = Some (cylinderFromTwoPlanes
           \<lparr>m_type = CylinderManifold, m_p = (0, 0, 0), m_n = (0, 0, 1), m_r = (1, 0, 0), m_pc = []\<rparr>
           \<lparr>m_type = PlaneManifold, m_p = (0, 0, 1), m_n = (0, 0, 1), m_r = (0, 0, 0), m_pc = []\<rparr>
           \<lparr>m_type = PlaneManifold, m_p = (0, 0, - 1), m_n = (0, 0, - 1), m_r = (0, 0, 0), m_pc = []\<rparr>
           \<lparr>cutout := True\<rparr>, sconst 0)"
    by (simp add: createPrimitive_def getRandomPrimitiveType_def PrimitiveSetCreator_new_def
      getAvailableManifoldTypes_def getManifold_def uniform_int_def bernoulli_def
      createCylinderPrimitive_def dot_def vsub_def cos_60 Let_def numeral_2_eq_2)
  have fill: "create_set ?X ?C ?g
      = Some ([cylinderFromTwoPlanes
           \<lparr>m_type = CylinderManifold, m_p = (0, 0, 0), m_n = (0, 0, 1), m_r = (1, 0, 0), m_pc = []\<rparr>
           \<lparr>m_type = PlaneManifold, m_p = (0, 0, 1), m_n = (0, 0, 1), m_r = (0, 0, 0), m_pc = []\<rparr>
           \<lparr>m_type = PlaneManifold, m_p = (0, 0, - 1), m_n = (0, 0, - 1), m_r = (0, 0, 0), m_pc = []\<rparr>
           \<lparr>cutout := True\<rparr>], sconst 0)"
    apply (simp add: create_set_def uniform_int_def PrimitiveSetCreator_new_def)
    apply (subst create_fill.simps)
    apply (simp add: prim [unfolded PrimitiveSetCreator_new_def] isNone_def cylinderFromTwoPlanes_def
        Primitive_new_def Let_def)
    apply (subst create_fill.simps)
    apply simp
    done
  from T [THEN conjunct1] fill
  have a: "map_option (map prim_ms \<circ> fst) (mutate_kind ?X ?C MODIFY [] ?g)
     = Some [[\<lparr>m_type = CylinderManifold, m_p = (0, 0, 0), m_n = (0, 0, 1), m_r = (1, 0, 0), m_pc = []\<rparr>,
            \<lparr>m_type = PlaneManifold, m_p = (0, 0, 1), m_n = (0, 0, 1), m_r = (0, 0, 0), m_pc = []\<rparr>,
            \<lparr>m_type = PlaneManifold, m_p = (0, 0, - 1), m_n = (0, 0, - 1), m_r = (0, 0, 0), m_pc = []\<rparr>]]"
    by (simp add: cylinderFromTwoPlanes_def Primitive_new_def Let_def)
  from T [THEN conjunct2, THEN conjunct2, THEN conjunct2, THEN conjunct1]
  have b: "fst (getRandomPrimitiveIdx [Primitive_None] ?g) = 0"
    by simp
  have c: "mutate_round ?X ?C REMOVE [Primitive_None] (sconst 0) = Some ([Primitive_None], sconst 0)"
    by (simp add: mutate_round_def)
  from a b c show ?thesis by (intro conjI)
qed

section \<open>Properties of the primitive set ranker\<close>

lemma DBL_MAX_large: "1 / 10000 < DBL_MAX"
proof -
  have "(1::real) \<le> 2 ^ 1023" by (rule one_le_power) simp
  moreover have "(1::real) \<le> 2 - 1 / 2 ^ 52" by (simp add: field_simps)
  ultimately have "1 * 1 \<le> (2 - 1 / 2 ^ 52) * (2::real) ^ 1023"
    by (intro mult_mono) simp_all
  then show ?thesis by (simp add: DBL_MAX_def)
qed

lemma closestPrimitive_first_min:
  assumes "\<forall>p\<in>set ps. imFunc p \<noteq> None"
  shows "\<exists>m' mn'. closestPrimitive sdg x ps (m, mn) = Some (m', mn') \<and>
     (if \<forall>f\<in>set (List.map_filter imFunc ps). m \<le> \<bar>fst (sdg f x)\<bar> then m' = m \<and> mn' = mn
      else \<exists>pre f post. List.map_filter imFunc ps = pre @ f # post
             \<and> m' = \<bar>fst (sdg f x)\<bar> \<and> m' < m \<and> mn' = Some (normalized (snd (sdg f x)))
             \<and> (\<forall>h\<in>set pre. \<bar>fst (sdg f x)\<bar> < \<bar>fst (sdg h x)\<bar>)
             \<and> (\<forall>h\<in>set post. \<bar>fst (sdg f x)\<bar> \<le> \<bar>fst (sdg h x)\<bar>))"
  using assms
proof (induction ps arbitrary: m mn)
  case Nil
  then show ?case by (simp add: List.map_filter_simps)
next
  case (Cons p ps)
  from Cons.prems obtain f0 where f0: "imFunc p = Some f0" by auto
  from Cons.prems have rest: "\<forall>q\<in>set ps. imFunc q \<noteq> None" by simp
  let ?fs = "List.map_filter imFunc ps"
  let ?a = "\<lambda>f. \<bar>fst (sdg f x)\<bar>"
  have mf: "List.map_filter imFunc (p # ps) = f0 # ?fs"
    using f0 by (simp add: List.map_filter_simps)
  show ?case
  proof (cases "m > ?a f0")
    case True
    then have step: "closestPrimitive sdg x (p # ps) (m, mn)
        = closestPrimitive sdg x ps (?a f0, Some (normalized (snd (sdg f0 x))))"
      using f0 by (simp add: Let_def)
    from Cons.IH [OF rest, of "?a f0" "Some (normalized (snd (sdg f0 x)))"]
    obtain m' mn' where r: "closestPrimitive sdg x ps (?a f0, Some (normalized (snd (sdg f0 x)))) = Some (m', mn')"
      and c: "if \<forall>f\<in>set ?fs. ?a f0 \<le> ?a f then m' = ?a f0 \<and> mn' = Some (normalized (snd (sdg f0 x)))
         else \<exists>pre f post. ?fs = pre @ f # post
             \<and> m' = ?a f \<and> m' < ?a f0 \<and> mn' = Some (normalized (snd (sdg f x)))
             \<and> (\<forall>h\<in>set pre. ?a f < ?a h) \<and> (\<forall>h\<in>set post. ?a f \<le> ?a h)"
      by blast
    have ex: "\<exists>pre f post. f0 # ?fs = pre @ f # post
             \<and> m' = ?a f \<and> m' < m \<and> mn' = Some (normalized (snd (sdg f x)))
             \<and> (\<forall>h\<in>set pre. ?a f < ?a h) \<and> (\<forall>h\<in>set post. ?a f \<le> ?a h)"
    proof (cases "\<forall>f\<in>set ?fs. ?a f0 \<le> ?a f")
      case all: True
      with c have "m' = ?a f0" "mn' = Some (normalized (snd (sdg f0 x)))" by simp_all
      with True all have "f0 # ?fs = [] @ f0 # ?fs
             \<and> m' = ?a f0 \<and> m' < m \<and> mn' = Some (normalized (snd (sdg f0 x)))
             \<and> (\<forall>h\<in>set []. ?a f0 < ?a h) \<and> (\<forall>h\<in>set ?fs. ?a f0 \<le> ?a h)" by simp
      then show ?thesis by blast
    next
      case False
      with c obtain pre f post where d: "?fs = pre @ f # post" "m' = ?a f" "m' < ?a f0"
        "mn' = Some (normalized (snd (sdg f x)))" "\<forall>h\<in>set pre. ?a f < ?a h" "\<forall>h\<in>set post. ?a f \<le> ?a h"
        by auto
      with True have "f0 # ?fs = (f0 # pre) @ f # post
             \<and> m' = ?a f \<and> m' < m \<and> mn' = Some (normalized (snd (sdg f x)))
             \<and> (\<forall>h\<in>set (f0 # pre). ?a f < ?a h) \<and> (\<forall>h\<in>set post. ?a f \<le> ?a h)" by simp
      then show ?thesis by blast
    qed
    from True have neg: "\<not> (\<forall>f\<in>set (f0 # ?fs). m \<le> ?a f)" by auto
    show ?thesis unfolding step r mf if_not_P [OF neg] using ex by blast
  next
    case False
    then have step: "closestPrimitive sdg x (p # ps) (m, mn) = closestPrimitive sdg x ps (m, mn)"
      using f0 by (simp add: Let_def)
    from Cons.IH [OF rest, of m mn]
    obtain m' mn' where r: "closestPrimitive sdg x ps (m, mn) = Some (m', mn')"
      and c: "if \<forall>f\<in>set ?fs. m \<le> ?a f then m' = m \<and> mn' = mn
         else \<exists>pre f post. ?fs = pre @ f # post
             \<and> m' = ?a f \<and> m' < m \<and> mn' = Some (normalized (snd (sdg f x)))
             \<and> (\<forall>h\<in>set pre. ?a f < ?a h) \<and> (\<forall>h\<in>set post. ?a f \<le> ?a h)"
      by blast
    show ?thesis
    proof (cases "\<forall>f\<in>set ?fs. m \<le> ?a f")
      case True
      with c False show ?thesis unfolding step r mf by simp
    next
      case nall: False
      with c obtain pre f post where d: "?fs = pre @ f # post" "m' = ?a f" "m' < m"
        "mn' = Some (normalized (snd (sdg f x)))" "\<forall>h\<in>set pre. ?a f < ?a h" "\<forall>h\<in>set post. ?a f \<le> ?a h"
        by auto
      with False have "f0 # ?fs = (f0 # pre) @ f # post
             \<and> m' = ?a f \<and> m' < m \<and> mn' = Some (normalized (snd (sdg f x)))
             \<and> (\<forall>h\<in>set (f0 # pre). ?a f < ?a h) \<and> (\<forall>h\<in>set post. ?a f \<le> ?a h)" by simp
      then have ex: "\<exists>pre f post. f0 # ?fs = pre @ f # post
             \<and> m' = ?a f \<and> m' < m \<and> mn' = Some (normalized (snd (sdg f x)))
             \<and> (\<forall>h\<in>set pre. ?a f < ?a h) \<and> (\<forall>h\<in>set post. ?a f \<le> ?a h)" by blast
      from nall have neg: "\<not> (\<forall>f\<in>set (f0 # ?fs). m \<le> ?a f)" by auto
      show ?thesis unfolding step r mf if_not_P [OF neg] using ex by blast
    qed
  qed
qed

lemma find_append_first:
  "P f \<Longrightarrow> \<forall>h\<in>set pre. \<not> P h \<Longrightarrow> find P (pre @ f # post) = Some f"
  by (induction pre) simp_all

lemma find_first_min:
  fixes a :: "'a \<Rightarrow> real"
  assumes fs: "fs = pre @ f # post"
    and pre: "\<forall>h\<in>set pre. a f < a h" and post: "\<forall>h\<in>set post. a f \<le> a h"
  shows "find (\<lambda>g. \<forall>g'\<in>set fs. a g \<le> a g') fs = Some f"
proof -
  have "\<forall>g'\<in>set fs. a f \<le> a g'"
    using pre post unfolding fs by fastforce
  moreover have "\<forall>h\<in>set pre. \<not> (\<forall>g'\<in>set fs. a h \<le> a g')"
    using pre unfolding fs by fastforce
  ultimately show ?thesis
    unfolding fs [symmetric] by (subst (2) fs) (rule find_append_first)
qed

lemma find_none_empty: "find P xs = None \<longleftrightarrow> (\<forall>x\<in>set xs. \<not> P x)"
  by (induction xs) auto

lemma pointValid_spec:
  assumes "\<forall>p\<in>set ps. imFunc p \<noteq> None"
  shows "pointValid sdg ps row
           = Some (spec_point_valid sdg (1 / 10000) (List.map_filter imFunc ps) row)"
proof -
  let ?fs = "List.map_filter imFunc ps"
  let ?x = "fst row"
  let ?a = "\<lambda>f. \<bar>fst (sdg f ?x)\<bar>"
  from closestPrimitive_first_min [OF assms, of sdg ?x DBL_MAX None]
  obtain m' mn' where r: "closestPrimitive sdg ?x ps (DBL_MAX, None) = Some (m', mn')"
    and c: "if \<forall>f\<in>set ?fs. DBL_MAX \<le> ?a f then m' = DBL_MAX \<and> mn' = None
      else \<exists>pre f post. ?fs = pre @ f # post
             \<and> m' = ?a f \<and> m' < DBL_MAX \<and> mn' = Some (normalized (snd (sdg f ?x)))
             \<and> (\<forall>h\<in>set pre. ?a f < ?a h) \<and> (\<forall>h\<in>set post. ?a f \<le> ?a h)"
    by blast
  show ?thesis
  proof (cases "\<forall>f\<in>set ?fs. DBL_MAX \<le> ?a f")
    case True
    with c have code: "pointValid sdg ps row = Some False"
      using r DBL_MAX_large by (simp add: pointValid_def Let_def)
    have "\<not> spec_point_valid sdg (1 / 10000) ?fs row"
    proof (cases "find (\<lambda>f. \<forall>f'\<in>set ?fs. ?a f \<le> ?a f') ?fs")
      case None
      then show ?thesis by (simp add: spec_point_valid_def)
    next
      case (Some f)
      then have "f \<in> set ?fs" by (auto simp add: find_Some_iff)
      with True have "DBL_MAX \<le> ?a f" by blast
      with DBL_MAX_large have "\<not> ?a f < 1 / 10000" by linarith
      with Some show ?thesis by (simp add: spec_point_valid_def)
    qed
    with code show ?thesis by simp
  next
    case False
    with c obtain pre f post where d: "?fs = pre @ f # post" "m' = ?a f"
        "mn' = Some (normalized (snd (sdg f ?x)))" "\<forall>h\<in>set pre. ?a f < ?a h" "\<forall>h\<in>set post. ?a f \<le> ?a h"
      by auto
    from find_first_min [OF d(1) d(4) d(5)]
    have "find (\<lambda>g. \<forall>g'\<in>set ?fs. ?a g \<le> ?a g') ?fs = Some f" .
    then have "spec_point_valid sdg (1 / 10000) ?fs row
        = (?a f < 1 / 10000 \<and> dot (snd row) (normalized (snd (sdg f ?x))) > 0.9)"
      by (simp add: spec_point_valid_def)
    with r d(2,3) show ?thesis by (simp add: pointValid_def Let_def)
  qed
qed

lemma countValidPoints_spec:
  assumes "\<forall>p\<in>set ps. imFunc p \<noteq> None"
  shows "countValidPoints sdg ps pc (v, c)
           = Some (v + int (length (filter (spec_point_valid sdg (1 / 10000)
                                     (List.map_filter imFunc ps)) pc)),
                   c + int (length pc))"
proof (induction pc arbitrary: v c)
  case Nil
  then show ?case by simp
next
  case (Cons row rows)
  show ?case
    by (simp add: pointValid_spec [OF assms] Cons.IH)
qed

text \<open>
  Claim C1, as amended. When every primitive of the ranked set has an implicit
  function, the geometry score counts, among the points of the ranker's cloud, those
  that are valid in the words of the specification over the functions of the ranked set
  alone and with the distance bound \<open>0.0001\<close>: \<open>d\<close> is the least \<open>|sd\<^sub>P(x)|\<close> over
  the primitives of the set, \<open>g\<close> the normalised gradient of the first primitive
  attaining it, and the point is valid if and only if \<open>d < 0.0001\<close> and
  \<open>\<nu> \<cdot> g > 0.9\<close>. The static primitives, the ranker's distance epsilon and the flag
  to ignore the static primitives have no influence on the rank.
\<close>

theorem geometry_score_counts_valid_points:
  assumes "\<forall>p\<in>set ps. imFunc p \<noteq> None"
  shows "countValidPoints sdg ps (rk_pc R) (0, 0)
           = Some (int (length (filter (spec_point_valid sdg (1 / 10000)
                                  (List.map_filter imFunc ps)) (rk_pc R))),
                   int (length (rk_pc R)))
       \<and> map_option fst (rank2 sdg boxAreas (R\<lparr>staticPrimitives := statics, distanceEpsilon := eps\<rparr>) ps ign')
           = map_option fst (rank2 sdg boxAreas R ps ign)"
proof -
  have "countValidPoints sdg ps (rk_pc R) (0, 0)
           = Some (int (length (filter (spec_point_valid sdg (1 / 10000)
                                  (List.map_filter imFunc ps)) (rk_pc R))),
                   int (length (rk_pc R)))"
    using countValidPoints_spec [OF assms, of sdg "rk_pc R" 0 0] by simp
  moreover have "map_option fst (rank2 sdg boxAreas (R\<lparr>staticPrimitives := statics, distanceEpsilon := eps\<rparr>) ps ign')
           = map_option fst (rank2 sdg boxAreas R ps ign)"
    by (simp add: rank2_def Let_def split: prod.splits option.splits)
  ultimately show ?thesis by (rule conjI)
qed

text \<open>
  A half-space through the origin as the only primitive, and two points with its
  normal, one on the plane and one at distance \<open>1/10\<close>: one of the two is valid.
\<close>

theorem geometry_score_counts_valid_points_witness:
  "countValidPoints
     (\<lambda>f x. case f of IFPolytope (p # ps) (n # ns) \<Rightarrow> (dot n (vsub x p), n) | _ \<Rightarrow> (1, (1, 0, 0)))
     [Primitive_new (IFPolytope [(0, 0, 0)] [(1, 0, 0)]) [] Box]
     (rk_pc (PrimitiveSetRanker_new [((0, 0, 0), (1, 0, 0)), ((1 / 10, 0, 0), (1, 0, 0))] [] [] (1 / 5) 50))
     (0, 0)
   = Some (1, 2)"
proof -
  let ?sdg = "\<lambda>f x. case f of IFPolytope (p # ps) (n # ns) \<Rightarrow> (dot n (vsub x p), n) | _ \<Rightarrow> (1, (1, 0, 0))"
  let ?ps = "[Primitive_new (IFPolytope [(0, 0, 0)] [(1, 0, 0)]) [] Box]"
  let ?R = "PrimitiveSetRanker_new [((0, 0, 0), (1, 0, 0)), ((1 / 10, 0, 0), (1, 0, 0))] [] [] (1 / 5) 50"
  have funcs: "\<forall>p\<in>set ?ps. imFunc p \<noteq> None" by (simp add: Primitive_new_def)
  from geometry_score_counts_valid_points [OF funcs, of ?sdg ?R, THEN conjunct1]
  show ?thesis
    by (simp add: PrimitiveSetRanker_new_def Primitive_new_def List.map_filter_simps
        spec_point_valid_def dot_def vsub_def normalized_def vnorm_def smul_def)
qed

text \<open>
  Claim C1 as stated fails in both respects. A point at distance \<open>1/10\<close> from the only
  primitive, with matching normal, is valid under the ranker's distance epsilon \<open>1/5\<close>
  and is not counted; and a point that lies on a static primitive, at distance 5 from
  the only primitive of the ranked set, is valid when the static primitives take part
  and is not counted.
\<close>

theorem geometry_score_counterexample:
  "countValidPoints
     (\<lambda>f x. case f of IFPolytope (p # ps) (n # ns) \<Rightarrow> (dot n (vsub x p), n) | _ \<Rightarrow> (1, (1, 0, 0)))
     [Primitive_new (IFPolytope [(0, 0, 0)] [(1, 0, 0)]) [] Box]
     (rk_pc (PrimitiveSetRanker_new [((1 / 10, 0, 0), (1, 0, 0))] [] [] (1 / 5) 50))
     (0, 0)
   = Some (0, 1)
 \<and> spec_valid_points
     (\<lambda>f x. case f of IFPolytope (p # ps) (n # ns) \<Rightarrow> (dot n (vsub x p), n) | _ \<Rightarrow> (1, (1, 0, 0)))
     (PrimitiveSetRanker_new [((1 / 10, 0, 0), (1, 0, 0))] [] [] (1 / 5) 50)
     [Primitive_new (IFPolytope [(0, 0, 0)] [(1, 0, 0)]) [] Box]
     False
   = 1
 \<and> countValidPoints
     (\<lambda>f x. case f of IFPolytope (p # ps) (n # ns) \<Rightarrow> (dot n (vsub x p), n) | _ \<Rightarrow> (1, (1, 0, 0)))
     [Primitive_new (IFPolytope [(5, 0, 0)] [(1, 0, 0)]) [] Box]
     (rk_pc (PrimitiveSetRanker_new [((0, 0, 0), (1, 0, 0))] []
               [Primitive_new (IFPolytope [(0, 0, 0)] [(1, 0, 0)]) [] Box] (1 / 10000) 50))
     (0, 0)
   = Some (0, 1)
 \<and> spec_valid_points
     (\<lambda>f x. case f of IFPolytope (p # ps) (n # ns) \<Rightarrow> (dot n (vsub x p), n) | _ \<Rightarrow> (1, (1, 0, 0)))
     (PrimitiveSetRanker_new [((0, 0, 0), (1, 0, 0))] []
               [Primitive_new (IFPolytope [(0, 0, 0)] [(1, 0, 0)]) [] Box] (1 / 10000) 50)
     [Primitive_new (IFPolytope [(5, 0, 0)] [(1, 0, 0)]) [] Box]
     False
   = 1"
proof -
  have big: "1 / 10 < DBL_MAX" "5 < DBL_MAX" "\<not> DBL_MAX < 1 / 10000"
  proof -
    have "(1::real) \<le> 2 ^ 1023 / 8" 
    proof -
      have "(2::real) ^ 1023 = 2 ^ 3 * 2 ^ 1020" by (simp add: power_add [symmetric])
      moreover have "(1::real) \<le> 2 ^ 1020" by (rule one_le_power) simp
      ultimately show ?thesis by simp
    qed
    then have "(8::real) \<le> 2 ^ 1023" by simp
    moreover have "(1::real) \<le> 2 - 1 / 2 ^ 52" by (simp add: field_simps)
    ultimately have "1 * 8 \<le> (2 - 1 / 2 ^ 52) * (2::real) ^ 1023"
      by (intro mult_mono) simp_all
    then have "8 \<le> DBL_MAX" by (simp add: DBL_MAX_def)
    then show "1 / 10 < DBL_MAX" "5 < DBL_MAX" "\<not> DBL_MAX < 1 / 10000" by simp_all
  qed
  show ?thesis
    by (simp add: PrimitiveSetRanker_new_def Primitive_new_def List.map_filter_simps
        spec_valid_points_def spec_functions_def spec_point_valid_def pointValid_def
        dot_def vsub_def normalized_def vnorm_def smul_def big Let_def)
qed

section \<open>Reproducibility of the creators\<close>













end
